theory Spec2Isabelle
  imports Complex_Main
begin

unbundle bit_operations_syntax

section \<open>Python values and helpers\<close>

text \<open>
  Python integers are unbounded (\<open>int\<close>). The value of a Python float is a rational.
  Where the code truncates a float expression to an integer (the transition day and the
  row count plan), every operation of the expression is rounded as an IEEE double, see
  \<open>fl_round\<close> below; the products of stored column values (scaling by 40, coercion by
  100) are taken exactly.
\<close>

datatype pyval = PNone | PInt int | PFloat rat | PStr string

text \<open>\<open>int(x)\<close> on a float truncates toward zero.\<close>

definition py_int :: "rat \<Rightarrow> int" where
  "py_int x = (if 0 \<le> x then \<lfloor>x\<rfloor> else \<lceil>x\<rceil>)"

subsection \<open>Double precision arithmetic\<close>

text \<open>
  An IEEE double has a significand of 53 bits, and every operation returns the double
  nearest to the exact result, a tie going to the even significand. The range of the
  exponent is not modelled (no overflow, no subnormal numbers), nor are infinities and
  NaN.
\<close>

text \<open>The number of binary digits of a positive integer.\<close>

function bitlen :: "int \<Rightarrow> nat" where
  "bitlen n = (if n \<le> 0 then 0 else Suc (bitlen (n div 2)))"
  by pat_completeness auto

termination bitlen
  by (relation "measure nat") auto

declare bitlen.simps [simp del]

definition pow2 :: "int \<Rightarrow> rat" where
  "pow2 k = (if 0 \<le> k then 2 ^ nat k else 1 / 2 ^ nat (- k))"

text \<open>For \<open>x > 0\<close>, the exponent \<open>k\<close> with \<open>2 ^ k \<le> x < 2 ^ (k + 1)\<close>.\<close>

definition ilog2 :: "rat \<Rightarrow> int" where
  "ilog2 x =
     (let (p, q) = quotient_of x;
          k = int (bitlen p) - int (bitlen q)
      in if pow2 k \<le> x then k else k - 1)"

definition round_half_even :: "rat \<Rightarrow> int" where
  "round_half_even x =
     (let f = \<lfloor>x\<rfloor>; r = x - of_int f
      in if r < 1 / 2 then f else if 1 / 2 < r then f + 1 else if even f then f else f + 1)"

definition fl_round :: "rat \<Rightarrow> rat" where
  "fl_round x =
     (if x = 0 then 0
      else (let e = ilog2 \<bar>x\<bar> - 52
            in sgn x * of_int (round_half_even (\<bar>x\<bar> / pow2 e)) * pow2 e))"

definition fl_add :: "rat \<Rightarrow> rat \<Rightarrow> rat" where
  "fl_add x y = fl_round (x + y)"

definition fl_sub :: "rat \<Rightarrow> rat \<Rightarrow> rat" where
  "fl_sub x y = fl_round (x - y)"

definition fl_mul :: "rat \<Rightarrow> rat \<Rightarrow> rat" where
  "fl_mul x y = fl_round (x * y)"

text \<open>The conversion of an integer operand of a float operation.\<close>

definition py_float :: "int \<Rightarrow> rat" where
  "py_float i = fl_round (of_int i)"

text \<open>
  A Python dictionary whose order matters is an association list in insertion order;
  \<open>d[k] = v\<close> keeps the place of a key that is already there.
\<close>

fun dict_set :: "'k \<Rightarrow> 'v \<Rightarrow> ('k \<times> 'v) list \<Rightarrow> ('k \<times> 'v) list" where
  "dict_set k v [] = [(k, v)]"
| "dict_set k v (p # ps) = (if fst p = k then (k, v) # ps else p # dict_set k v ps)"

section \<open>exceptions.py\<close>

text \<open>The exception classes of the repository, and the built-in ones the code can raise.\<close>

datatype exn =
    ValueError string
  | KeyError string
  | OSError string
  | DataGenerationError string
  | ConfigurationError string
  | CacheError string
  | OutputError string
  | ValidationError string

fun exn_msg :: "exn \<Rightarrow> string" where
  "exn_msg (ValueError m) = m"
| "exn_msg (KeyError m) = m"
| "exn_msg (OSError m) = m"
| "exn_msg (DataGenerationError m) = m"
| "exn_msg (ConfigurationError m) = m"
| "exn_msg (CacheError m) = m"
| "exn_msg (OutputError m) = m"
| "exn_msg (ValidationError m) = m"

section \<open>config.py\<close>

datatype DataType = INTEGER | FLOAT | STRING_LONG | STRING_CATEGORY

datatype TransitionType =
    VALUES_SCALE | VALUES_ALL_STRINGS | VALUES_SOME_STRINGS | SCHEMA_NAME
  | STRING_LONG_TO_SMALL | STRING_SMALL_TO_LONG | NULLS_HIGH | ZEROS_HIGH

text \<open>The integer value of each member of the \<open>IntFlag\<close> class \<open>TransitionType\<close>.\<close>

fun TransitionType_value :: "TransitionType \<Rightarrow> int" where
  "TransitionType_value VALUES_SCALE = push_bit 1 1"
| "TransitionType_value VALUES_ALL_STRINGS = push_bit 2 1"
| "TransitionType_value VALUES_SOME_STRINGS = push_bit 3 1"
| "TransitionType_value SCHEMA_NAME = push_bit 4 1"
| "TransitionType_value STRING_LONG_TO_SMALL = push_bit 5 1"
| "TransitionType_value STRING_SMALL_TO_LONG = push_bit 6 1"
| "TransitionType_value NULLS_HIGH = push_bit 7 1"
| "TransitionType_value ZEROS_HIGH = push_bit 8 1"

datatype DistributionType = INCREMENT | UNIFORM | NORMAL

fun DistributionType_value :: "DistributionType \<Rightarrow> int" where
  "DistributionType_value INCREMENT = push_bit 0 1"
| "DistributionType_value UNIFORM = push_bit 1 1"
| "DistributionType_value NORMAL = push_bit 2 1"

record ColumnConfig =
  name :: string
  data_type :: DataType
  transition_percentage :: rat
  transition_type :: int
  distribution_flags :: int

text \<open>
  \<open>ColumnConfig.__post_init__\<close>: construction raises \<open>ValueError\<close> unless
  \<open>0 <= transition_percentage <= 1\<close>.
\<close>

definition ColumnConfig_post_init :: "ColumnConfig \<Rightarrow> exn + ColumnConfig" where
  "ColumnConfig_post_init c =
     (if \<not> (0 \<le> transition_percentage c \<and> transition_percentage c \<le> 1)
      then Inl (ValueError ''transition_percentage must be between 0 and 1'')
      else Inr c)"

text \<open>
  \<open>GeneratorConfig\<close>, without the fields that only steer logging, progress bars and the
  unused \<open>resume_generation\<close>. \<open>max_workers\<close> may be \<open>None\<close>.
\<close>

record GeneratorConfig =
  num_days :: int
  approx_rows_per_day :: int
  output_dir :: string
  output_format :: string
  cache_batch_size :: int
  max_workers :: "int option"
  row_variation_percentage :: rat
  random_day_reduction_probability :: rat
  random_day_reduction_factor :: rat
  cleanup_cache :: bool
  columns :: "ColumnConfig list"

definition GeneratorConfig_post_init :: "GeneratorConfig \<Rightarrow> exn + GeneratorConfig" where
  "GeneratorConfig_post_init c =
     (if num_days c \<le> 0 then Inl (ValueError ''num_days must be positive'')
      else if approx_rows_per_day c \<le> 0 then Inl (ValueError ''approx_rows_per_day must be positive'')
      else if output_format c \<notin> set [''csv'', ''json'', ''jsonl'']
        then Inl (ValueError ''output_format must be one of: csv, json, jsonl'')
      else if \<not> (0 \<le> row_variation_percentage c \<and> row_variation_percentage c \<le> 1)
        then Inl (ValueError ''row_variation_percentage must be between 0 and 1'')
      else Inr c)"

section \<open>column_space.py\<close>

text \<open>
  A \<open>ColumnSpace\<close> holds its configuration and, for the two string data types only, a
  word generator (\<open>word_gen\<close> is true when the generator was created).
\<close>

record ColumnSpace =
  config :: ColumnConfig
  word_gen :: bool

definition ColumnSpace_init :: "ColumnConfig \<Rightarrow> ColumnSpace" where
  "ColumnSpace_init c =
     \<lparr> config = c,
       word_gen = (data_type c = STRING_LONG \<or> data_type c = STRING_CATEGORY) \<rparr>"

definition has_distribution :: "ColumnSpace \<Rightarrow> int \<Rightarrow> bool" where
  "has_distribution self msk \<longleftrightarrow> (distribution_flags (config self) AND msk) \<noteq> 0"

definition has_transition :: "ColumnSpace \<Rightarrow> int \<Rightarrow> int \<Rightarrow> int \<Rightarrow> bool" where
  "has_transition self day_index total_days msk =
     (let transition_day = py_int (fl_mul (py_float total_days) (transition_percentage (config self)))
      in if day_index < transition_day then False
         else (transition_type (config self) AND msk) \<noteq> 0)"

definition get_field_name :: "ColumnSpace \<Rightarrow> int \<Rightarrow> int \<Rightarrow> string" where
  "get_field_name self day_index total_days =
     (if has_transition self day_index total_days (TransitionType_value SCHEMA_NAME)
      then ''new-'' @ name (config self)
      else name (config self))"


text \<open>Decimal rendering of integers, as \<open>str\<close> and f-strings produce it.\<close>

definition digit_char :: "nat \<Rightarrow> char" where
  "digit_char n = char_of (48 + n)"

fun str_nat :: "nat \<Rightarrow> string" where
  "str_nat n = (if n < 10 then [digit_char n] else str_nat (n div 10) @ [digit_char (n mod 10)])"

declare str_nat.simps [simp del]

definition str_int :: "int \<Rightarrow> string" where
  "str_int i = (if i < 0 then CHR ''-'' # str_nat (nat (- i)) else str_nat (nat i))"

text \<open>
  Everything the program takes from outside is collected in a \<open>World\<close>: the outcome of
  the \<open>k\<close>-th random draw of the run (one stream per kind of draw, indexed by a global
  draw counter), the textual form of a float, which cache files cannot be connected to,
  which output files cannot be opened, how many CPUs there are and which paths a glob
  pattern matches.
\<close>

record World =
  w_uniform :: "nat \<Rightarrow> rat"
  w_coin :: "nat \<Rightarrow> bool"
  w_normal :: "nat \<Rightarrow> rat"
  w_cat_str :: "nat \<Rightarrow> string"
  w_words :: "nat \<Rightarrow> nat \<Rightarrow> string"
  w_float_str :: "rat \<Rightarrow> string"
  w_connect_fails :: "string \<Rightarrow> bool"
  w_open_fails :: "string \<Rightarrow> bool"
  w_cpu_count :: int
  w_glob :: "string \<Rightarrow> string \<Rightarrow> bool"

fun py_str :: "World \<Rightarrow> pyval \<Rightarrow> string" where
  "py_str w PNone = ''None''"
| "py_str w (PInt i) = str_int i"
| "py_str w (PFloat r) = w_float_str w r"
| "py_str w (PStr s) = s"

text \<open>\<open>isinstance(v, (int, float))\<close>.\<close>

fun py_is_number :: "pyval \<Rightarrow> bool" where
  "py_is_number (PInt i) = True"
| "py_is_number (PFloat r) = True"
| "py_is_number v = False"

text \<open>\<open>v == 0\<close>.\<close>

fun py_eq_zero :: "pyval \<Rightarrow> bool" where
  "py_eq_zero (PInt i) = (i = 0)"
| "py_eq_zero (PFloat r) = (r = 0)"
| "py_eq_zero v = False"

text \<open>\<open>v * k\<close> for a number \<open>v\<close> and an integer literal \<open>k\<close>.\<close>

fun py_mul :: "pyval \<Rightarrow> int \<Rightarrow> pyval" where
  "py_mul (PInt i) k = PInt (i * k)"
| "py_mul (PFloat r) k = PFloat (r * of_int k)"
| "py_mul v k = v"

text \<open>\<open>int(v)\<close> for a number \<open>v\<close>.\<close>

fun py_to_int :: "pyval \<Rightarrow> pyval" where
  "py_to_int (PFloat r) = PInt (py_int r)"
| "py_to_int v = v"

subsection \<open>Sampling\<close>

text \<open>
  Each sampling function takes the draw counter \<open>t\<close> and returns the counter after its
  draws. \<open>np.random.rand\<close> and \<open>np.random.normal\<close> raise \<open>ValueError\<close> on a
  negative count; \<open>np.arange\<close> and \<open>range\<close> are empty there.
\<close>

definition np_arange :: "int \<Rightarrow> pyval list" where
  "np_arange num_values = map (\<lambda>i. PFloat (of_nat i)) [0..<nat num_values]"

definition np_random_rand :: "World \<Rightarrow> int \<Rightarrow> nat \<Rightarrow> exn + (pyval list \<times> nat)" where
  "np_random_rand w num_values t =
     (if num_values < 0 then Inl (ValueError ''negative dimensions are not allowed'')
      else Inr (map (\<lambda>i. PFloat (w_uniform w (t + i))) [0..<nat num_values], t + nat num_values))"

definition np_random_normal :: "World \<Rightarrow> int \<Rightarrow> nat \<Rightarrow> exn + (pyval list \<times> nat)" where
  "np_random_normal w num_values t =
     (if num_values < 0 then Inl (ValueError ''negative dimensions are not allowed'')
      else Inr (map (\<lambda>i. PFloat (w_normal w (t + i))) [0..<nat num_values], t + nat num_values))"

definition generate_word :: "World \<Rightarrow> ColumnSpace \<Rightarrow> int \<Rightarrow> int \<Rightarrow> nat \<Rightarrow> exn + (string \<times> nat)" where
  "generate_word w self day_index total_days t =
     (if \<not> word_gen self
      then Inl (DataGenerationError (''Word generator not initialized for column '' @ name (config self)))
      else if data_type (config self) = STRING_LONG then
        (if has_transition self day_index total_days (TransitionType_value STRING_LONG_TO_SMALL)
         then Inr (w_cat_str w t, t + 1)
         else Inr (w_words w 20 t, t + 1))
      else if data_type (config self) = STRING_CATEGORY then
        (if has_transition self day_index total_days (TransitionType_value STRING_SMALL_TO_LONG)
         then Inr (w_words w 5 t, t + 1)
         else Inr (w_cat_str w t, t + 1))
      else Inr (w_cat_str w t, t + 1))"

text \<open>The comprehension \<open>[self._generate_word(...) for _ in range(k)]\<close>.\<close>

fun generate_words :: "World \<Rightarrow> ColumnSpace \<Rightarrow> int \<Rightarrow> int \<Rightarrow> nat \<Rightarrow> nat \<Rightarrow> exn + (pyval list \<times> nat)" where
  "generate_words w self day_index total_days 0 t = Inr ([], t)"
| "generate_words w self day_index total_days (Suc k) t =
     (case generate_word w self day_index total_days t of
        Inl e \<Rightarrow> Inl e
      | Inr (s, t') \<Rightarrow>
          (case generate_words w self day_index total_days k t' of
             Inl e \<Rightarrow> Inl e
           | Inr (vs, t'') \<Rightarrow> Inr (PStr s # vs, t'')))"

definition generate_numeric_distribution :: "World \<Rightarrow> ColumnSpace \<Rightarrow> int \<Rightarrow> nat \<Rightarrow> exn + (pyval list \<times> nat)" where
  "generate_numeric_distribution w self num_values t =
     (if has_distribution self (DistributionType_value INCREMENT) then Inr (np_arange num_values, t)
      else if has_distribution self (DistributionType_value UNIFORM) then np_random_rand w num_values t
      else if has_distribution self (DistributionType_value NORMAL) then np_random_normal w num_values t
      else np_random_rand w num_values t)"

text \<open>\<open>_replace_half\<close>: one draw per value, in order.\<close>

definition replace_half :: "World \<Rightarrow> pyval list \<Rightarrow> pyval \<Rightarrow> nat \<Rightarrow> pyval list \<times> nat" where
  "replace_half w values new_value t =
     (map (\<lambda>(i, v). if w_uniform w (t + i) > 1 / 2 then new_value else v) (enumerate 0 values),
      t + length values)"

definition scale_values :: "pyval list \<Rightarrow> pyval list" where
  "scale_values values = map (\<lambda>v. if py_is_number v then py_mul v 40 else v) values"

text \<open>
  \<open>_apply_transitions\<close> in two parts: the scaling, zeroing and nulling of values, then
  the two stringifying transitions.
\<close>

definition scale_zero_null :: "World \<Rightarrow> ColumnSpace \<Rightarrow> pyval list \<Rightarrow> int \<Rightarrow> int \<Rightarrow> nat \<Rightarrow> pyval list \<times> nat" where
  "scale_zero_null w self values day_index total_days t =
     (let v1 = (if has_transition self day_index total_days (TransitionType_value VALUES_SCALE)
                then scale_values values else values);
          (v2, t2) = (if has_transition self day_index total_days (TransitionType_value ZEROS_HIGH)
                then (if w_uniform w t \<ge> 1 / 2 then replace_half w v1 (PInt 0) (t + 1) else (v1, t + 1))
                else (v1, t))
      in if has_transition self day_index total_days (TransitionType_value NULLS_HIGH)
         then (if w_uniform w t2 \<ge> 1 / 2 then replace_half w v2 (PStr []) (t2 + 1) else (v2, t2 + 1))
         else (v2, t2))"

definition stringify :: "World \<Rightarrow> ColumnSpace \<Rightarrow> pyval list \<Rightarrow> int \<Rightarrow> int \<Rightarrow> nat \<Rightarrow> pyval list \<times> nat" where
  "stringify w self values day_index total_days t =
     (if has_transition self day_index total_days (TransitionType_value VALUES_SOME_STRINGS)
      then (map (\<lambda>(i, v). if w_coin w (t + i) then PStr (''sometimes-'' @ py_str w v) else v)
              (enumerate 0 values), t + length values)
      else if has_transition self day_index total_days (TransitionType_value VALUES_ALL_STRINGS)
      then (map (\<lambda>v. PStr (''all-'' @ py_str w v)) values, t)
      else (values, t))"

definition apply_transitions :: "World \<Rightarrow> ColumnSpace \<Rightarrow> pyval list \<Rightarrow> int \<Rightarrow> int \<Rightarrow> nat \<Rightarrow> pyval list \<times> nat" where
  "apply_transitions w self values day_index total_days t =
     (let (v3, t3) = scale_zero_null w self values day_index total_days t
      in stringify w self v3 day_index total_days t3)"

definition convert_types :: "ColumnSpace \<Rightarrow> pyval list \<Rightarrow> pyval list" where
  "convert_types self values =
     (if data_type (config self) = INTEGER
      then map (\<lambda>v. if py_is_number v \<and> \<not> py_eq_zero v \<and> v \<noteq> PStr []
                     then py_to_int (py_mul v 100) else v) values
      else values)"

definition get_cache_path :: "ColumnSpace \<Rightarrow> int \<Rightarrow> string" where
  "get_cache_path self day_index = ''.'' @ name (config self) @ ''-'' @ str_int day_index @ ''.cache''"

subsection \<open>Generating one day of one column\<close>

text \<open>
  One iteration of the loop of \<open>generate_day_data\<close>: sample a batch, convert the types of
  a numeric batch, then apply the transitions.
\<close>

definition generate_batch :: "World \<Rightarrow> ColumnSpace \<Rightarrow> int \<Rightarrow> int \<Rightarrow> int \<Rightarrow> nat \<Rightarrow> exn + (pyval list \<times> nat)" where
  "generate_batch w self day_index total_days batch_size_actual t =
     (case (if data_type (config self) = STRING_LONG \<or> data_type (config self) = STRING_CATEGORY
            then generate_words w self day_index total_days (nat batch_size_actual) t
            else (case generate_numeric_distribution w self batch_size_actual t of
                    Inl e \<Rightarrow> Inl e
                  | Inr (vs, t') \<Rightarrow> Inr (convert_types self vs, t')))
      of Inl e \<Rightarrow> Inl e
       | Inr (batch_values, t') \<Rightarrow> Inr (apply_transitions w self batch_values day_index total_days t'))"

text \<open>
  The \<open>while values_generated < num_values\<close> loop. \<open>rows\<close> is what has been inserted
  into the cache table so far. The loop does not return when a batch is empty, so it is a
  partial function: \<open>None\<close> is "does not return".
\<close>

partial_function (option) generate_loop ::
  "World \<Rightarrow> ColumnSpace \<Rightarrow> int \<Rightarrow> int \<Rightarrow> int \<Rightarrow> int \<Rightarrow> int \<Rightarrow> pyval list \<Rightarrow> nat
     \<Rightarrow> ((exn + pyval list) \<times> nat) option" where
  "generate_loop w self day_index num_values total_days batch_size values_generated rows t =
     (if values_generated < num_values then
        (case generate_batch w self day_index total_days (min batch_size (num_values - values_generated)) t of
           Inl e \<Rightarrow> Some (Inl e, t)
         | Inr (batch_values, t') \<Rightarrow>
             generate_loop w self day_index num_values total_days batch_size
               (values_generated + int (length batch_values)) (rows @ batch_values) t')
      else Some (Inr rows, t))"

declare generate_loop.simps [code]

section \<open>Program state\<close>

text \<open>
  Output files hold structured content: a CSV file is its header and its rows, a JSON file
  the array of its records, a JSON-lines file the sequence of its records. A record is the
  dictionary \<open>dict(zip(field_names, row))\<close>, kept as an association list in insertion order.
\<close>

record GenerationMetrics =
  total_rows_generated :: int
  total_columns :: int
  cache_operations :: int
  files_written :: int
  errors_encountered :: int

datatype outfile =
    CSVFile "string list" "pyval list list"
  | JSONFile "(string \<times> pyval) list list"
  | JSONLinesFile "(string \<times> pyval) list list"
  | ProfileFile GenerationMetrics "(int \<times> int) list"

text \<open>
  The state threaded through a run: the draw counter, the cache files (path to the rows of
  the table \<open>data\<close>, in rowid order), the output files, and the two mutable fields of the
  \<open>DataGenerator\<close> object. Wall-clock time and file timestamps are not modelled.
\<close>

record State =
  tick :: nat
  caches :: "string \<rightharpoonup> pyval list"
  outputs :: "string \<rightharpoonup> outfile"
  metrics :: GenerationMetrics
  rows_per_day_map :: "(int \<times> int) list"

text \<open>
  \<open>generate_day_data\<close>. The context manager \<open>_cache_connection\<close> removes an old cache
  file, connects (a failure is raised as \<open>CacheError\<close>), creates the table, and turns any
  exception of the body into \<open>CacheError\<close>; rows are committed only when the loop has
  ended, so after a failure in the body the table is empty.
\<close>

definition generate_day_data ::
  "World \<Rightarrow> ColumnSpace \<Rightarrow> int \<Rightarrow> int \<Rightarrow> int \<Rightarrow> int \<Rightarrow> State \<Rightarrow> ((exn + unit) \<times> State) option" where
  "generate_day_data w self day_index num_values total_days batch_size st =
     (let cache_path = get_cache_path self day_index;
          st0 = st\<lparr>caches := (caches st)(cache_path := None)\<rparr>
      in if w_connect_fails w cache_path
         then Some (Inl (CacheError (''Cache operation failed for '' @ name (config self)
                           @ '': unable to open database file'')), st0)
         else (case generate_loop w self day_index num_values total_days batch_size 0 [] (tick st) of
                 None \<Rightarrow> None
               | Some (Inl e, t') \<Rightarrow>
                   Some (Inl (CacheError (''Cache operation failed for '' @ name (config self) @ '': '' @ exn_msg e)),
                         st0\<lparr>tick := t', caches := (caches st0)(cache_path \<mapsto> [])\<rparr>)
               | Some (Inr rows, t') \<Rightarrow>
                   Some (Inr (), st0\<lparr>tick := t', caches := (caches st0)(cache_path \<mapsto> rows)\<rparr>)))"

section \<open>output_writers.py\<close>

text \<open>\<open>SELECT val FROM data WHERE rowid=?\<close> followed by \<open>fetchone()\<close>.\<close>

definition cache_read :: "pyval list \<Rightarrow> int \<Rightarrow> pyval option" where
  "cache_read rows row_index =
     (if 1 \<le> row_index \<and> row_index \<le> int (length rows) then Some (rows ! nat (row_index - 1)) else None)"

text \<open>
  The three \<open>_get_data_row\<close> methods differ only in what they append for a row that was
  found: \<open>str(result[0])\<close> in the CSV writer, \<open>result[0]\<close> in the two JSON writers.
\<close>

definition get_data_row_with ::
  "(pyval \<Rightarrow> pyval) \<Rightarrow> string list \<Rightarrow> int \<Rightarrow> (string \<rightharpoonup> pyval list) \<Rightarrow> pyval \<Rightarrow> pyval list" where
  "get_data_row_with found field_names row_index cache_handles none_value =
     map (\<lambda>field_name.
            case cache_handles field_name of
              None \<Rightarrow> none_value
            | Some cache_conn \<Rightarrow>
                (case cache_read cache_conn row_index of
                   Some v \<Rightarrow> found v
                 | None \<Rightarrow> none_value))
         field_names"

definition CSVWriter_get_data_row ::
  "World \<Rightarrow> string list \<Rightarrow> int \<Rightarrow> (string \<rightharpoonup> pyval list) \<Rightarrow> pyval \<Rightarrow> pyval list" where
  "CSVWriter_get_data_row w = get_data_row_with (\<lambda>v. PStr (py_str w v))"

definition JSONWriter_get_data_row ::
  "string list \<Rightarrow> int \<Rightarrow> (string \<rightharpoonup> pyval list) \<Rightarrow> pyval \<Rightarrow> pyval list" where
  "JSONWriter_get_data_row = get_data_row_with (\<lambda>v. v)"

definition JSONLinesWriter_get_data_row ::
  "string list \<Rightarrow> int \<Rightarrow> (string \<rightharpoonup> pyval list) \<Rightarrow> pyval \<Rightarrow> pyval list" where
  "JSONLinesWriter_get_data_row = get_data_row_with (\<lambda>v. v)"

text \<open>The test \<open>row and row != [None]\<close> of the three \<open>write_day\<close> methods.\<close>

definition row_kept :: "pyval list \<Rightarrow> bool" where
  "row_kept row \<longleftrightarrow> row \<noteq> [] \<and> row \<noteq> [PNone]"

text \<open>\<open>dict(zip(field_names, row))\<close>.\<close>

definition dict_zip :: "string list \<Rightarrow> pyval list \<Rightarrow> (string \<times> pyval) list" where
  "dict_zip field_names row = fold (\<lambda>(k, v) d. dict_set k v d) (zip field_names row) []"

text \<open>\<open>range(1, rows_per_day + 1)\<close>.\<close>

definition row_indices :: "int \<Rightarrow> int list" where
  "row_indices rows_per_day = map (\<lambda>i. int i + 1) [0..<nat rows_per_day]"

text \<open>
  The \<open>write_day\<close> methods. Reading a row never raises (\<open>_get_data_row\<close> catches every
  exception), so the only failure is that of \<open>open\<close>, raised as \<open>OutputError\<close>.
\<close>

definition CSVWriter_write_day ::
  "World \<Rightarrow> int \<Rightarrow> string list \<Rightarrow> (string \<rightharpoonup> pyval list) \<Rightarrow> int \<Rightarrow> string
     \<Rightarrow> (string \<rightharpoonup> outfile) \<Rightarrow> (exn + unit) \<times> (string \<rightharpoonup> outfile)" where
  "CSVWriter_write_day w day_index field_names cache_handles rows_per_day output_path files =
     (if w_open_fails w output_path
      then (Inl (OutputError (''Failed to write CSV file '' @ output_path)), files)
      else (Inr (), files(output_path \<mapsto>
              CSVFile field_names
                (filter row_kept
                   (map (\<lambda>row_index. CSVWriter_get_data_row w field_names row_index cache_handles (PStr []))
                      (row_indices rows_per_day))))))"

definition JSONWriter_write_day ::
  "World \<Rightarrow> int \<Rightarrow> string list \<Rightarrow> (string \<rightharpoonup> pyval list) \<Rightarrow> int \<Rightarrow> string
     \<Rightarrow> (string \<rightharpoonup> outfile) \<Rightarrow> (exn + unit) \<times> (string \<rightharpoonup> outfile)" where
  "JSONWriter_write_day w day_index field_names cache_handles rows_per_day output_path files =
     (let records = map (dict_zip field_names)
                      (filter row_kept
                         (map (\<lambda>row_index. JSONWriter_get_data_row field_names row_index cache_handles PNone)
                            (row_indices rows_per_day)))
      in if w_open_fails w output_path
         then (Inl (OutputError (''Failed to write JSON file '' @ output_path)), files)
         else (Inr (), files(output_path \<mapsto> JSONFile records)))"

definition JSONLinesWriter_write_day ::
  "World \<Rightarrow> int \<Rightarrow> string list \<Rightarrow> (string \<rightharpoonup> pyval list) \<Rightarrow> int \<Rightarrow> string
     \<Rightarrow> (string \<rightharpoonup> outfile) \<Rightarrow> (exn + unit) \<times> (string \<rightharpoonup> outfile)" where
  "JSONLinesWriter_write_day w day_index field_names cache_handles rows_per_day output_path files =
     (if w_open_fails w output_path
      then (Inl (OutputError (''Failed to write JSONL file '' @ output_path)), files)
      else (Inr (), files(output_path \<mapsto>
              JSONLinesFile
                (map (dict_zip field_names)
                   (filter row_kept
                      (map (\<lambda>row_index. JSONLinesWriter_get_data_row field_names row_index cache_handles PNone)
                         (row_indices rows_per_day)))))))"

datatype OutputWriter = CSVWriter | JSONWriter | JSONLinesWriter

fun write_day ::
  "OutputWriter \<Rightarrow> World \<Rightarrow> int \<Rightarrow> string list \<Rightarrow> (string \<rightharpoonup> pyval list) \<Rightarrow> int \<Rightarrow> string
     \<Rightarrow> (string \<rightharpoonup> outfile) \<Rightarrow> (exn + unit) \<times> (string \<rightharpoonup> outfile)" where
  "write_day CSVWriter = CSVWriter_write_day"
| "write_day JSONWriter = JSONWriter_write_day"
| "write_day JSONLinesWriter = JSONLinesWriter_write_day"

fun get_file_extension :: "OutputWriter \<Rightarrow> string" where
  "get_file_extension CSVWriter = ''csv''"
| "get_file_extension JSONWriter = ''json''"
| "get_file_extension JSONLinesWriter = ''jsonl''"

text \<open>\<open>OutputWriterFactory.create_writer\<close>, with the table \<open>_writers\<close> written out.\<close>

definition create_writer :: "string \<Rightarrow> exn + OutputWriter" where
  "create_writer format_name =
     (if format_name = ''csv'' then Inr CSVWriter
      else if format_name = ''json'' then Inr JSONWriter
      else if format_name = ''jsonl'' then Inr JSONLinesWriter
      else Inl (OutputError (''Unsupported output format: '' @ format_name)))"

section \<open>data_generator.py\<close>

text \<open>
  A \<^theory_text>\<open>for\<close> loop whose body may raise or not return: the first exception ends the loop.
\<close>

fun for_each :: "('a \<Rightarrow> 's \<Rightarrow> ((exn + unit) \<times> 's) option) \<Rightarrow> 'a list \<Rightarrow> 's \<Rightarrow> ((exn + unit) \<times> 's) option" where
  "for_each body [] s = Some (Inr (), s)"
| "for_each body (x # xs) s =
     (case body x s of
        None \<Rightarrow> None
      | Some (Inl e, s') \<Rightarrow> Some (Inl e, s')
      | Some (Inr u, s') \<Rightarrow> for_each body xs s')"

text \<open>\<open>range(n)\<close> as a list of Python integers.\<close>

definition py_range :: "int \<Rightarrow> int list" where
  "py_range n = map int [0..<nat n]"

record DataGenerator =
  gen_config :: GeneratorConfig
  column_spaces :: "ColumnSpace list"

definition DataGenerator_init :: "GeneratorConfig \<Rightarrow> DataGenerator" where
  "DataGenerator_init c = \<lparr> gen_config = c, column_spaces = map ColumnSpace_init (columns c) \<rparr>"

text \<open>The state of a fresh \<open>DataGenerator\<close> in a given file system, at draw counter \<open>t\<close>.\<close>

definition initial_state :: "DataGenerator \<Rightarrow> nat \<Rightarrow> (string \<rightharpoonup> pyval list) \<Rightarrow> (string \<rightharpoonup> outfile) \<Rightarrow> State" where
  "initial_state g t cache_files output_files =
     \<lparr> tick = t, caches = cache_files, outputs = output_files,
       metrics = \<lparr> total_rows_generated = 0, total_columns = int (length (column_spaces g)),
                   cache_operations = 0, files_written = 0, errors_encountered = 0 \<rparr>,
       rows_per_day_map = [] \<rparr>"

text \<open>The body of the loop of \<open>_generate_rows_per_day_map\<close>: two draws per day.\<close>

definition rows_map_entry :: "World \<Rightarrow> GeneratorConfig \<Rightarrow> nat \<Rightarrow> int" where
  "rows_map_entry w c t =
     (let base_rows = approx_rows_per_day c;
          variation = row_variation_percentage c;
          variation_factor = fl_add 1 (fl_mul (fl_mul (fl_sub (w_uniform w t) (1 / 2)) 2) variation);
          num_rows = py_int (fl_mul (py_float base_rows) variation_factor);
          num_rows' = (if w_uniform w (t + 1) > random_day_reduction_probability c
                       then py_int (fl_mul (py_float num_rows) (random_day_reduction_factor c))
                       else num_rows)
      in max 1 num_rows')"

definition generate_rows_per_day_map :: "World \<Rightarrow> GeneratorConfig \<Rightarrow> nat \<Rightarrow> (int \<times> int) list \<times> nat" where
  "generate_rows_per_day_map w c t =
     fold (\<lambda>day (rows_map, t). (dict_set day (rows_map_entry w c t) rows_map, t + 2))
       (py_range (num_days c)) ([], t)"

text \<open>\<open>self.rows_per_day_map[day_index]\<close> raises \<open>KeyError\<close> on a missing day.\<close>

definition lookup_rows :: "State \<Rightarrow> int \<Rightarrow> exn + int" where
  "lookup_rows st day_index =
     (case map_of (rows_per_day_map st) day_index of
        None \<Rightarrow> Inl (KeyError (str_int day_index))
      | Some n \<Rightarrow> Inr n)"

definition add_cache_operations :: "int \<Rightarrow> State \<Rightarrow> State" where
  "add_cache_operations k st = st\<lparr>metrics := (metrics st)\<lparr>cache_operations := cache_operations (metrics st) + k\<rparr>\<rparr>"

definition add_error :: "State \<Rightarrow> State" where
  "add_error st = st\<lparr>metrics := (metrics st)\<lparr>errors_encountered := errors_encountered (metrics st) + 1\<rparr>\<rparr>"

text \<open>The body of the inner loop of the single-process branch of \<open>_generate_column_data\<close>.\<close>

definition generate_one_day :: "World \<Rightarrow> DataGenerator \<Rightarrow> ColumnSpace \<Rightarrow> int \<Rightarrow> State \<Rightarrow> ((exn + unit) \<times> State) option" where
  "generate_one_day w g column_space day_index st =
     (case lookup_rows st day_index of
        Inl e \<Rightarrow> Some (Inl e, st)
      | Inr num_values \<Rightarrow>
          (case generate_day_data w column_space day_index num_values (num_days (gen_config g))
                  (cache_batch_size (gen_config g)) st of
             None \<Rightarrow> None
           | Some (Inl e, st') \<Rightarrow> Some (Inl e, st')
           | Some (Inr u, st') \<Rightarrow> Some (Inr (), add_cache_operations 1 st')))"

text \<open>
  \<open>generate_column_worker\<close>: a worker builds its own \<open>ColumnSpace\<close> from the column's
  configuration and generates every day; an exception is raised again.
\<close>

definition generate_column_worker :: "World \<Rightarrow> ColumnConfig \<Rightarrow> (int \<times> int) list \<Rightarrow> int \<Rightarrow> int \<Rightarrow> State \<Rightarrow> ((exn + unit) \<times> State) option" where
  "generate_column_worker w column_config rows_map total_days batch_size st =
     for_each (\<lambda>day_index st.
         case map_of rows_map day_index of
           None \<Rightarrow> Some (Inl (KeyError (str_int day_index)), st)
         | Some num_values \<Rightarrow>
             generate_day_data w (ColumnSpace_init column_config) day_index num_values total_days batch_size st)
       (py_range total_days) st"

text \<open>
  \<open>_generate_column_data\<close>. With \<open>max_workers == 1\<close> the columns are generated in order,
  every day of a column before the next column. Otherwise one task per column is handed to
  a process pool (which refuses a negative \<open>max_workers\<close>); the model runs the tasks one
  after the other and looks at their results in the order of submission, and the first
  failed task is raised as \<open>DataGenerationError\<close>.
\<close>

definition generate_column_data :: "World \<Rightarrow> DataGenerator \<Rightarrow> State \<Rightarrow> ((exn + unit) \<times> State) option" where
  "generate_column_data w g st =
     (if max_workers (gen_config g) = Some 1 then
        for_each (\<lambda>column_space.
            for_each (generate_one_day w g column_space) (py_range (num_days (gen_config g))))
          (column_spaces g) st
      else
        (let workers = (case max_workers (gen_config g) of
                          None \<Rightarrow> w_cpu_count w
                        | Some k \<Rightarrow> if k = 0 then w_cpu_count w else k)
         in if workers \<le> 0 then Some (Inl (ValueError ''max_workers must be greater than 0''), st)
            else
              for_each (\<lambda>col st.
                  case generate_column_worker w (config col) (rows_per_day_map st)
                         (num_days (gen_config g)) (cache_batch_size (gen_config g)) st of
                    None \<Rightarrow> None
                  | Some (Inl e, st') \<Rightarrow>
                      Some (Inl (DataGenerationError
                                   (''Failed to generate column '' @ name (config col) @ '': '' @ exn_msg e)),
                            add_error st')
                  | Some (Inr u, st') \<Rightarrow>
                      Some (Inr (), add_cache_operations (num_days (gen_config g)) st'))
                (column_spaces g) st))"

text \<open>
  \<open>_open_cache_connections\<close>: the handles of a day, keyed by the configured column name;
  a missing cache file raises \<open>CacheError\<close>.
\<close>

fun open_cache_connections ::
  "ColumnSpace list \<Rightarrow> int \<Rightarrow> (string \<rightharpoonup> pyval list) \<Rightarrow> (string \<rightharpoonup> pyval list)
     \<Rightarrow> exn + (string \<rightharpoonup> pyval list)" where
  "open_cache_connections [] day_index cache_files connections = Inr connections"
| "open_cache_connections (column_space # cs) day_index cache_files connections =
     (let cache_path = get_cache_path column_space day_index
      in case cache_files cache_path of
           None \<Rightarrow> Inl (CacheError (''Cache file not found: '' @ cache_path))
         | Some rows \<Rightarrow>
             open_cache_connections cs day_index cache_files
               (connections(name (config column_space) \<mapsto> rows)))"

text \<open>\<open>os.path.join(output_dir, file_name)\<close> for a relative \<open>file_name\<close>.\<close>

definition path_join :: "string \<Rightarrow> string \<Rightarrow> string" where
  "path_join dir file_name =
     (if dir = [] \<or> last dir = CHR ''/'' then dir @ file_name else dir @ ''/'' @ file_name)"

text \<open>
  The body of the loop of \<open>_write_output_data\<close> for one day: every exception is counted
  and raised as \<open>OutputError\<close>.
\<close>

definition write_one_day :: "World \<Rightarrow> DataGenerator \<Rightarrow> OutputWriter \<Rightarrow> int \<Rightarrow> State \<Rightarrow> ((exn + unit) \<times> State) option" where
  "write_one_day w g writer day_index st =
     (let field_names = map (\<lambda>column_space. get_field_name column_space day_index (num_days (gen_config g)))
                          (column_spaces g);
          failed = (\<lambda>e st'. Some (Inl (OutputError (''Failed to write output for day '' @ str_int day_index
                                   @ '': '' @ exn_msg e)), add_error st'))
      in case open_cache_connections (column_spaces g) day_index (caches st) Map.empty of
           Inl e \<Rightarrow> failed e st
         | Inr cache_handles \<Rightarrow>
             (let output_path = path_join (output_dir (gen_config g))
                                  (str_int day_index @ ''.'' @ get_file_extension writer)
              in case lookup_rows st day_index of
                   Inl e \<Rightarrow> failed e st
                 | Inr rows_for_day \<Rightarrow>
                     (case write_day writer w day_index field_names cache_handles rows_for_day
                             output_path (outputs st) of
                        (Inl e, files) \<Rightarrow> failed e (st\<lparr>outputs := files\<rparr>)
                      | (Inr u, files) \<Rightarrow>
                          Some (Inr (),
                            st\<lparr>outputs := files,
                               metrics := (metrics st)
                                 \<lparr>files_written := files_written (metrics st) + 1,
                                  total_rows_generated := total_rows_generated (metrics st) + rows_for_day\<rparr>\<rparr>))))"

definition write_output_data :: "World \<Rightarrow> DataGenerator \<Rightarrow> State \<Rightarrow> ((exn + unit) \<times> State) option" where
  "write_output_data w g st =
     (case create_writer (output_format (gen_config g)) of
        Inl e \<Rightarrow> Some (Inl e, st)
      | Inr writer \<Rightarrow> for_each (write_one_day w g writer) (py_range (num_days (gen_config g))) st)"

definition write_generation_profile :: "World \<Rightarrow> DataGenerator \<Rightarrow> State \<Rightarrow> ((exn + unit) \<times> State) option" where
  "write_generation_profile w g st =
     (let profile_path = path_join (output_dir (gen_config g)) ''generation_profile.json''
      in if w_open_fails w profile_path then Some (Inl (OSError profile_path), st)
         else Some (Inr (), st\<lparr>outputs := (outputs st)(profile_path \<mapsto>
                                 ProfileFile (metrics st) (rows_per_day_map st))\<rparr>))"

text \<open>\<open>cleanup_all_cache\<close> removes every cache file that the column's glob pattern matches.\<close>

definition cleanup_all_cache :: "World \<Rightarrow> ColumnSpace \<Rightarrow> State \<Rightarrow> State" where
  "cleanup_all_cache w self st =
     st\<lparr>caches := (\<lambda>p. if w_glob w (''.'' @ name (config self) @ ''-*.cache'') p then None else caches st p)\<rparr>"

definition cleanup_cache_files :: "World \<Rightarrow> DataGenerator \<Rightarrow> State \<Rightarrow> State" where
  "cleanup_cache_files w g st =
     (if \<not> cleanup_cache (gen_config g) then st
      else fold (cleanup_all_cache w) (column_spaces g) st)"

text \<open>
  \<open>generate\<close>: the steps in order inside one \<^theory_text>\<open>try\<close>; every exception is counted and
  raised as \<open>DataGenerationError\<close>. Creating the output directory is not modelled.
\<close>

definition generate_steps :: "World \<Rightarrow> DataGenerator \<Rightarrow> State \<Rightarrow> ((exn + unit) \<times> State) option" where
  "generate_steps w g st =
     (let (rows_map, t') = generate_rows_per_day_map w (gen_config g) (tick st);
          st1 = st\<lparr>tick := t', rows_per_day_map := rows_map\<rparr>
      in case generate_column_data w g st1 of
           None \<Rightarrow> None
         | Some (Inl e, st2) \<Rightarrow> Some (Inl e, st2)
         | Some (Inr u, st2) \<Rightarrow>
             (case write_output_data w g st2 of
                None \<Rightarrow> None
              | Some (Inl e, st3) \<Rightarrow> Some (Inl e, st3)
              | Some (Inr u, st3) \<Rightarrow>
                  (case write_generation_profile w g st3 of
                     None \<Rightarrow> None
                   | Some (Inl e, st4) \<Rightarrow> Some (Inl e, st4)
                   | Some (Inr u, st4) \<Rightarrow> Some (Inr (), cleanup_cache_files w g st4))))"

definition generate :: "World \<Rightarrow> DataGenerator \<Rightarrow> State \<Rightarrow> ((exn + GenerationMetrics) \<times> State) option" where
  "generate w g st =
     (case generate_steps w g st of
        None \<Rightarrow> None
      | Some (Inl e, st') \<Rightarrow>
          Some (Inl (DataGenerationError (''Data generation failed: '' @ exn_msg e)), add_error st')
      | Some (Inr u, st') \<Rightarrow> Some (Inr (metrics st'), st'))"

section \<open>Observations and the specification's variants\<close>

text \<open>The day cache that a successful \<open>generate_day_data\<close> leaves behind.\<close>

definition generated_values ::
  "World \<Rightarrow> ColumnSpace \<Rightarrow> int \<Rightarrow> int \<Rightarrow> int \<Rightarrow> int \<Rightarrow> State \<Rightarrow> pyval list option" where
  "generated_values w self day_index num_values total_days batch_size st =
     (case generate_day_data w self day_index num_values total_days batch_size st of
        Some (Inr u, st') \<Rightarrow> caches st' (get_cache_path self day_index)
      | _ \<Rightarrow> None)"

text \<open>
  The sizes of the batches in which a day of \<open>n\<close> values is generated: full batches, then
  the rest.
\<close>

function batch_sizes :: "int \<Rightarrow> int \<Rightarrow> int list" where
  "batch_sizes batch_size n =
     (if 0 < n \<and> 0 < batch_size
      then min batch_size n # batch_sizes batch_size (n - min batch_size n)
      else [])"
  by pat_completeness auto

termination batch_sizes
  by (relation "measure (\<lambda>(b, n). nat n)") auto

declare batch_sizes.simps [simp del]

text \<open>
  The values of a day in generation order: the batches of the given sizes one after the
  other, each sampled at the draw counter that the batch before it has left.
\<close>

fun generation_order :: "World \<Rightarrow> ColumnSpace \<Rightarrow> int \<Rightarrow> int \<Rightarrow> int list \<Rightarrow> nat \<Rightarrow> pyval list" where
  "generation_order w self day_index total_days [] t = []"
| "generation_order w self day_index total_days (k # ks) t =
     (case generate_batch w self day_index total_days k t of
        Inl e \<Rightarrow> []
      | Inr (batch_values, t') \<Rightarrow> batch_values @ generation_order w self day_index total_days ks t')"

text \<open>The output file at a path after a run of \<open>generate\<close>, and the result of the run.\<close>

definition output_after :: "World \<Rightarrow> DataGenerator \<Rightarrow> State \<Rightarrow> string \<Rightarrow> outfile option" where
  "output_after w g st path = (case generate w g st of Some (r, st') \<Rightarrow> outputs st' path | None \<Rightarrow> None)"

definition generate_result :: "World \<Rightarrow> DataGenerator \<Rightarrow> State \<Rightarrow> (exn + GenerationMetrics) option" where
  "generate_result w g st = (case generate w g st of Some (r, st') \<Rightarrow> Some r | None \<Rightarrow> None)"

text \<open>
  The outcome of the column generation phase of a run: \<open>_generate_column_data\<close> in the
  state that the row count plan has left.
\<close>

definition column_generation_phase :: "World \<Rightarrow> DataGenerator \<Rightarrow> State \<Rightarrow> ((exn + unit) \<times> State) option" where
  "column_generation_phase w g st =
     (let (rows_map, t') = generate_rows_per_day_map w (gen_config g) (tick st)
      in generate_column_data w g (st\<lparr>tick := t', rows_per_day_map := rows_map\<rparr>))"

text \<open>
  The order of the post-sampling transforms as the specification lists it: scaling, high
  zeros, high nulls, then type coercion, then stringification.
\<close>

definition spec_post_sampling :: "World \<Rightarrow> ColumnSpace \<Rightarrow> pyval list \<Rightarrow> int \<Rightarrow> int \<Rightarrow> nat \<Rightarrow> pyval list \<times> nat" where
  "spec_post_sampling w self values day_index total_days t =
     (let (v3, t3) = scale_zero_null w self values day_index total_days t
      in stringify w self (convert_types self v3) day_index total_days t3)"

text \<open>
  The row count of a day as the specification words it: the product is rounded
  (\<open>round\<close>), where the code truncates.
\<close>

definition spec_rows :: "World \<Rightarrow> GeneratorConfig \<Rightarrow> nat \<Rightarrow> rat" where
  "spec_rows w c t =
     (let f = 1 + (w_uniform w t - 1 / 2) * 2 * row_variation_percentage c;
          rows = of_int (round (of_int (approx_rows_per_day c) * f));
          rows' = (if w_uniform w (t + 1) > random_day_reduction_probability c
                   then rows * random_day_reduction_factor c else rows)
      in max 1 rows')"

subsection \<open>Concrete inputs\<close>

text \<open>
  A world in which every uniform draw is \<open>u\<close>, nothing fails, and whole-numbered floats are
  printed as Python prints them (the examples use no other float).
\<close>

definition example_float_str :: "rat \<Rightarrow> string" where
  "example_float_str r = (if of_int \<lfloor>r\<rfloor> = r then str_int \<lfloor>r\<rfloor> @ ''.0'' else ''float'')"

definition example_world :: "rat \<Rightarrow> World" where
  "example_world u =
     \<lparr> w_uniform = (\<lambda>k. u), w_coin = (\<lambda>k. True), w_normal = (\<lambda>k. 0),
       w_cat_str = (\<lambda>k. ''cat''), w_words = (\<lambda>n k. ''some words''),
       w_float_str = example_float_str,
       w_connect_fails = (\<lambda>p. False), w_open_fails = (\<lambda>p. False),
       w_cpu_count = 1, w_glob = (\<lambda>pat p. False) \<rparr>"

text \<open>A world in which the \<open>k\<close>-th uniform draw is \<open>k / 8\<close>.\<close>

definition counting_world :: World where
  "counting_world = (example_world 0)\<lparr>w_uniform := (\<lambda>k. of_nat k / 8)\<rparr>"

text \<open>The same world, except that no cache file can be connected to.\<close>

definition broken_world :: World where
  "broken_world = (example_world (1 / 2))\<lparr>w_connect_fails := (\<lambda>p. True)\<rparr>"

definition example_column :: "string \<Rightarrow> DataType \<Rightarrow> rat \<Rightarrow> int \<Rightarrow> int \<Rightarrow> ColumnSpace" where
  "example_column nm ty perc tflags dflags =
     ColumnSpace_init \<lparr> name = nm, data_type = ty, transition_percentage = perc,
                        transition_type = tflags, distribution_flags = dflags \<rparr>"

definition example_config :: "int \<Rightarrow> int \<Rightarrow> string \<Rightarrow> ColumnConfig list \<Rightarrow> GeneratorConfig" where
  "example_config days rows fmt cols =
     \<lparr> num_days = days, approx_rows_per_day = rows, output_dir = ''data'', output_format = fmt,
       cache_batch_size = 10000, max_workers = Some 1, row_variation_percentage = 0,
       random_day_reduction_probability = fl_round (4 / 5),
       random_day_reduction_factor = fl_round (1 / 10),
       cleanup_cache = False, columns = cols \<rparr>"

definition example_state :: State where
  "example_state =
     \<lparr> tick = 0, caches = Map.empty, outputs = Map.empty,
       metrics = \<lparr> total_rows_generated = 0, total_columns = 0, cache_operations = 0,
                   files_written = 0, errors_encountered = 0 \<rparr>,
       rows_per_day_map = [] \<rparr>"

section \<open>Double precision arithmetic on integers\<close>



lemma round_half_even_of_int: "round_half_even (of_int m) = m"
  by (simp add: round_half_even_def)




lemma bitlen_bounds:
  "0 < n \<Longrightarrow> 2 ^ (bitlen n - 1) \<le> n \<and> n < 2 ^ bitlen n"
proof (induction n rule: bitlen.induct)
  case (1 n)
  show ?case
  proof (cases "n div 2 \<le> 0")
    case True
    with 1(2) have "n = 1" by simp
    then show ?thesis
      by (simp add: bitlen.simps [of 1] bitlen.simps [of 0])
  next
    case False
    with 1 have IH: "2 ^ (bitlen (n div 2) - 1) \<le> n div 2" "n div 2 < 2 ^ bitlen (n div 2)"
      by simp_all
    from False have pos: "0 < bitlen (n div 2)"
      by (simp add: bitlen.simps [of "n div 2"])
    have b: "bitlen n = Suc (bitlen (n div 2))"
      using 1(2) by (simp add: bitlen.simps [of n])
    from pos have "(2::int) ^ bitlen (n div 2) = 2 * 2 ^ (bitlen (n div 2) - 1)"
      by (cases "bitlen (n div 2)") simp_all
    with IH(1) have lo: "2 ^ bitlen (n div 2) \<le> n" by linarith
    from IH(2) have hi: "n < 2 * 2 ^ bitlen (n div 2)" by linarith
    from lo hi b show ?thesis by simp
  qed
qed

lemma ilog2_of_int:
  assumes "0 < n"
  shows "ilog2 (of_int n) = int (bitlen n) - 1"
proof -
  from bitlen_bounds [OF assms] have lo: "2 ^ (bitlen n - 1) \<le> n" by simp
  from assms have pos: "0 < bitlen n"
    by (simp add: bitlen.simps [of n])
  then have "pow2 (int (bitlen n) - 1) = of_int (2 ^ (bitlen n - 1))"
    by (simp add: pow2_def nat_diff_distrib')
  also from lo have "\<dots> \<le> (of_int n :: rat)"
    by (simp only: of_int_le_iff)
  finally have "pow2 (int (bitlen n) - 1) \<le> of_int n" .
  moreover have "bitlen 1 = 1"
    by (simp add: bitlen.simps [of 1] bitlen.simps [of 0])
  ultimately show ?thesis
    by (simp add: ilog2_def)
qed

lemma fl_round_of_int_exact:
  assumes "0 < n" and "n \<le> 2 ^ 53"
  shows "fl_round (of_int n) = of_int n"
proof -
  from bitlen_bounds [OF assms(1)] have lo: "2 ^ (bitlen n - 1) \<le> n" by simp
  have len: "bitlen n \<le> 54"
  proof (rule ccontr)
    assume "\<not> bitlen n \<le> 54"
    then have "54 \<le> bitlen n - 1" by simp
    then have "(2::int) ^ 54 \<le> 2 ^ (bitlen n - 1)"
      by (rule power_increasing) simp
    with lo assms(2) show False by simp
  qed
  define e where "e = int (bitlen n) - 1 - 52"
  have r: "fl_round (of_int n) = of_int (round_half_even (of_int n / pow2 e)) * pow2 e"
    using assms(1) by (simp add: fl_round_def ilog2_of_int e_def Let_def)
  show ?thesis
  proof (cases "e \<le> 0")
    case True
    then have "pow2 e = 1 / 2 ^ nat (- e)"
      by (cases "e = 0") (simp_all add: pow2_def)
    then have "(of_int n :: rat) / pow2 e = of_int (n * 2 ^ nat (- e))"
      by simp
    then have "round_half_even (of_int n / pow2 e) = n * 2 ^ nat (- e)"
      by (simp only: round_half_even_of_int)
    with r \<open>pow2 e = 1 / 2 ^ nat (- e)\<close> show ?thesis
      by simp
  next
    case False
    with len have "e = 1" "bitlen n = 54" by (simp_all add: e_def)
    with lo assms(2) have n: "n = 2 ^ 53" by simp
    have "(of_int n :: rat) / pow2 1 = of_int (2 ^ 52)"
      by (simp add: n pow2_def)
    then have "round_half_even (of_int n / pow2 1) = 2 ^ 52"
      by (simp only: round_half_even_of_int)
    with r \<open>e = 1\<close> show ?thesis
      by (simp add: n pow2_def)
  qed
qed

lemma py_float_exact: "0 < n \<Longrightarrow> n \<le> 2 ^ 53 \<Longrightarrow> py_float n = of_int n"
  by (simp add: py_float_def fl_round_of_int_exact)

lemma fl_mul_one_exact: "0 < n \<Longrightarrow> n \<le> 2 ^ 53 \<Longrightarrow> fl_mul (py_float n) 1 = of_int n"
  by (simp add: fl_mul_def py_float_exact fl_round_of_int_exact)

section \<open>Transition gating\<close>




text \<open>
  The product that the code truncates is the double product, which is not the exact one:
  for ten days and the double nearest to 0.3 the code computes the transition day 3,
  where the exact product has the floor 2.
\<close>

lemma float_product_is_rounded:
  "py_int (fl_mul (py_float 10) (fl_round (3 / 10))) = 3 \<and> \<lfloor>10 * fl_round (3 / 10)\<rfloor> = 2"
  by code_simp



section \<open>Columns on which no transition is active\<close>

lemma scale_zero_null_inactive:
  assumes "\<And>f. \<not> has_transition self d td (TransitionType_value f)"
  shows "scale_zero_null w self vs d td t = (vs, t)"
  using assms [of VALUES_SCALE] assms [of ZEROS_HIGH] assms [of NULLS_HIGH]
  by (simp add: scale_zero_null_def)

lemma stringify_inactive:
  assumes "\<And>f. \<not> has_transition self d td (TransitionType_value f)"
  shows "stringify w self vs d td t = (vs, t)"
  using assms [of VALUES_SOME_STRINGS] assms [of VALUES_ALL_STRINGS]
  by (simp add: stringify_def)

lemma apply_transitions_inactive:
  assumes "\<And>f. \<not> has_transition self d td (TransitionType_value f)"
  shows "apply_transitions w self vs d td t = (vs, t)"
  using assms by (simp add: apply_transitions_def scale_zero_null_inactive stringify_inactive)

text \<open>
  Claim C10, as amended. A column with \<open>transition_percentage\<close> exactly 1 is accepted by
  the constructor, and for \<open>0 < total_days \<le> 2 ^ 53\<close> no transition mask is active for
  it on any day before \<open>total_days\<close>: its field name is the configured name and
  \<open>_apply_transitions\<close> returns the values as they are, without a random draw.
\<close>

theorem no_transition_at_fraction_one:
  assumes "transition_percentage (config self) = 1"
    and "0 < total_days" and "total_days \<le> 2 ^ 53"
    and "d < total_days"
  shows "ColumnConfig_post_init (config self) = Inr (config self)
       \<and> \<not> has_transition self d total_days msk
       \<and> get_field_name self d total_days = name (config self)
       \<and> apply_transitions w self vs d total_days t = (vs, t)"
proof -
  have "py_int (fl_mul (py_float total_days) (transition_percentage (config self))) = total_days"
    using assms(1) assms(2) fl_mul_one_exact [OF assms(2) assms(3)] by (simp add: py_int_def)
  with assms(4) have inactive: "\<And>m. \<not> has_transition self d total_days m"
    by (simp add: has_transition_def)
  then show ?thesis
    using assms(1)
    by (simp add: ColumnConfig_post_init_def get_field_name_def apply_transitions_inactive)
qed

text \<open>A column with every transition flag set and fraction 1, on the last of ten days.\<close>

theorem no_transition_at_fraction_one_witness:
  "transition_percentage (config (example_column ''c'' INTEGER 1 510 1)) = 1
   \<and> (0::int) < 10 \<and> (10::int) \<le> 2 ^ 53 \<and> (9::int) < 10
   \<and> \<not> has_transition (example_column ''c'' INTEGER 1 510 1) 9 10 (TransitionType_value SCHEMA_NAME)
   \<and> get_field_name (example_column ''c'' INTEGER 1 510 1) 9 10 = ''c''"
proof -
  let ?c = "example_column ''c'' INTEGER 1 510 1"
  have h1: "transition_percentage (config ?c) = 1"
    by (simp add: example_column_def ColumnSpace_init_def)
  have h2: "(0::int) < 10" by simp
  have h3: "(10::int) \<le> 2 ^ 53" by simp
  have h4: "(9::int) < 10" by simp
  from no_transition_at_fraction_one [OF h1 h2 h3 h4, of "TransitionType_value SCHEMA_NAME"]
  show ?thesis
    using h1 by (simp add: example_column_def ColumnSpace_init_def)
qed

text \<open>
  The claim as stated, for every \<open>total_days > 0\<close>, fails where \<open>total_days\<close> is not a
  double: \<open>(2 ^ 53 + 1) * 1.0\<close> is \<open>2 ^ 53\<close>, so on day \<open>2 ^ 53\<close> of \<open>2 ^ 53 + 1\<close> the
  transitions of the column are active and its field name is prefixed.
\<close>

theorem no_transition_at_fraction_one_counterexample:
  "transition_percentage (config (example_column ''c'' INTEGER 1 510 1)) = 1
   \<and> (0::int) < 2 ^ 53 + 1 \<and> (2 ^ 53 :: int) < 2 ^ 53 + 1
   \<and> has_transition (example_column ''c'' INTEGER 1 510 1) (2 ^ 53) (2 ^ 53 + 1)
        (TransitionType_value SCHEMA_NAME)
   \<and> get_field_name (example_column ''c'' INTEGER 1 510 1) (2 ^ 53) (2 ^ 53 + 1) = ''new-c''"
  by code_simp

section \<open>The generation loop\<close>

lemma generate_word_returns:
  "word_gen self \<Longrightarrow> \<exists>s. generate_word w self d td t = Inr (s, t + 1)"
  by (simp add: generate_word_def)

lemma generate_words_length:
  assumes "word_gen self"
  shows "\<exists>vs. generate_words w self d td k t = Inr (vs, t + k) \<and> length vs = k"
proof (induction k arbitrary: t)
  case 0
  then show ?case by simp
next
  case (Suc k)
  from generate_word_returns [OF assms] obtain s where s: "generate_word w self d td t = Inr (s, t + 1)"
    by blast
  from Suc [of "t + 1"] obtain vs where
    "generate_words w self d td k (t + 1) = Inr (vs, t + 1 + k)" "length vs = k"
    by blast
  with s show ?case by simp
qed

lemma generate_numeric_distribution_length:
  assumes "0 \<le> n"
  shows "\<exists>vs t'. generate_numeric_distribution w self n t = Inr (vs, t') \<and> length vs = nat n"
  using assms
  by (simp add: generate_numeric_distribution_def np_arange_def np_random_rand_def np_random_normal_def)

lemma convert_types_length: "length (convert_types self vs) = length vs"
  by (simp add: convert_types_def)

lemma replace_half_length: "length (fst (replace_half w vs v t)) = length vs"
  by (simp add: replace_half_def)

lemma scale_zero_null_length:
  "length (fst (scale_zero_null w self vs d td t)) = length vs"
  by (simp add: scale_zero_null_def Let_def scale_values_def replace_half_def split: prod.splits)

lemma stringify_length:
  "length (fst (stringify w self vs d td t)) = length vs"
  by (simp add: stringify_def)

lemma apply_transitions_length:
  "length (fst (apply_transitions w self vs d td t)) = length vs"
proof -
  obtain v3 t3 where a: "scale_zero_null w self vs d td t = (v3, t3)"
    by (cases "scale_zero_null w self vs d td t")
  with scale_zero_null_length [of w self vs d td t] have "length v3 = length vs"
    by simp
  with a show ?thesis
    by (simp add: apply_transitions_def stringify_length)
qed

lemma generate_batch_length:
  assumes "data_type (config self) = STRING_LONG \<or> data_type (config self) = STRING_CATEGORY \<longrightarrow> word_gen self"
    and "0 \<le> n"
  shows "\<exists>vs t'. generate_batch w self d td n t = Inr (vs, t') \<and> length vs = nat n"
proof (cases "data_type (config self) = STRING_LONG \<or> data_type (config self) = STRING_CATEGORY")
  case True
  with assms(1) have "word_gen self" by simp
  from generate_words_length [OF this, of w d td "nat n" t] obtain vs where
    vs: "generate_words w self d td (nat n) t = Inr (vs, t + nat n)" "length vs = nat n"
    by blast
  obtain vs' t' where a: "apply_transitions w self vs d td (t + nat n) = (vs', t')"
    by (cases "apply_transitions w self vs d td (t + nat n)")
  with apply_transitions_length [of w self vs d td "t + nat n"] have "length vs' = length vs"
    by simp
  with True vs a show ?thesis
    by (simp add: generate_batch_def)
next
  case False
  from generate_numeric_distribution_length [OF assms(2), of w self t] obtain vs t1 where
    vs: "generate_numeric_distribution w self n t = Inr (vs, t1)" "length vs = nat n"
    by blast
  obtain vs' t' where a: "apply_transitions w self (convert_types self vs) d td t1 = (vs', t')"
    by (cases "apply_transitions w self (convert_types self vs) d td t1")
  with apply_transitions_length [of w self "convert_types self vs" d td t1]
  have "length vs' = length vs"
    by (simp add: convert_types_length)
  with False vs a show ?thesis
    by (simp add: generate_batch_def)
qed

lemma batch_sizes_step:
  "0 < n \<Longrightarrow> 0 < bs \<Longrightarrow> batch_sizes bs n = min bs n # batch_sizes bs (n - min bs n)"
  by (subst batch_sizes.simps) simp

lemma batch_sizes_done: "n \<le> 0 \<Longrightarrow> batch_sizes bs n = []"
  by (subst batch_sizes.simps) simp

lemma generate_loop_returns:
  assumes "data_type (config self) = STRING_LONG \<or> data_type (config self) = STRING_CATEGORY \<longrightarrow> word_gen self"
    and "1 \<le> bs"
  shows "vg \<le> n \<Longrightarrow>
     \<exists>t'. generate_loop w self d n td bs vg rows t
            = Some (Inr (rows @ generation_order w self d td (batch_sizes bs (n - vg)) t), t')
          \<and> int (length (generation_order w self d td (batch_sizes bs (n - vg)) t)) = n - vg"
proof (induction "nat (n - vg)" arbitrary: vg rows t rule: less_induct)
  case less
  show ?case
  proof (cases "vg < n")
    case False
    with less.prems have "vg = n" by simp
    then show ?thesis
      by (subst generate_loop.simps) (simp add: batch_sizes_done)
  next
    case True
    define k where "k = min bs (n - vg)"
    from True assms(2) have k: "1 \<le> k" "k \<le> n - vg"
      by (simp_all add: k_def)
    from generate_batch_length [OF assms(1), of k w d td t] k obtain vs t1 where
      vs: "generate_batch w self d td k t = Inr (vs, t1)" "length vs = nat k"
      by auto
    from k vs(2) have len: "int (length vs) = k" by simp
    with k have "nat (n - (vg + int (length vs))) < nat (n - vg)" "vg + int (length vs) \<le> n"
      by simp_all
    from less.hyps [OF this, of "rows @ vs" t1] len obtain t' where
      rest: "generate_loop w self d n td bs (vg + k) (rows @ vs) t1
              = Some (Inr ((rows @ vs) @ generation_order w self d td (batch_sizes bs (n - (vg + k))) t1), t')"
        "int (length (generation_order w self d td (batch_sizes bs (n - (vg + k))) t1)) = n - (vg + k)"
      by auto
    from True assms(2) have "batch_sizes bs (n - vg) = k # batch_sizes bs (n - vg - k)"
      unfolding k_def by (intro batch_sizes_step) simp_all
    with vs(1) have order: "generation_order w self d td (batch_sizes bs (n - vg)) t
        = vs @ generation_order w self d td (batch_sizes bs (n - (vg + k))) t1"
      by (simp add: algebra_simps)
    have "generate_loop w self d n td bs vg rows t
        = Some (Inr (rows @ generation_order w self d td (batch_sizes bs (n - vg)) t), t')"
      using True vs(1) rest(1) len order by (subst generate_loop.simps) (simp add: k_def)
    moreover have "int (length (generation_order w self d td (batch_sizes bs (n - vg)) t)) = n - vg"
      using rest(2) len order by simp
    ultimately show ?thesis by blast
  qed
qed

lemma generate_words_Inr_length:
  "generate_words w self d td k t = Inr (vs, t') \<Longrightarrow> length vs = k"
  by (induction k arbitrary: t vs) (auto split: sum.splits prod.splits)

lemma generate_numeric_distribution_Inr_length:
  "generate_numeric_distribution w self n t = Inr (vs, t') \<Longrightarrow> length vs = nat n"
  by (auto simp: generate_numeric_distribution_def np_arange_def np_random_rand_def
      np_random_normal_def split: if_splits)

lemma generate_batch_Inr_length:
  assumes "generate_batch w self d td n t = Inr (vs, t')"
  shows "length vs = nat n"
proof -
  from assms obtain raw t1 where
    raw: "(if data_type (config self) = STRING_LONG \<or> data_type (config self) = STRING_CATEGORY
            then generate_words w self d td (nat n) t
            else (case generate_numeric_distribution w self n t of
                    Inl e \<Rightarrow> Inl e
                  | Inr (vs, t') \<Rightarrow> Inr (convert_types self vs, t'))) = Inr (raw, t1)"
    and vs: "apply_transitions w self raw d td t1 = (vs, t')"
    by (auto simp: generate_batch_def split: sum.splits)
  from raw have "length raw = nat n"
    by (auto simp: convert_types_length dest: generate_words_Inr_length
        generate_numeric_distribution_Inr_length split: if_splits sum.splits)
  with vs apply_transitions_length [of w self raw d td t1] show ?thesis
    by simp
qed

lemma generate_loop_total:
  assumes "1 \<le> bs"
  shows "\<exists>r. generate_loop w self d n td bs vg rows t = Some r"
proof (induction "nat (n - vg)" arbitrary: vg rows t rule: less_induct)
  case less
  show ?case
  proof (cases "vg < n")
    case False
    then show ?thesis
      by (subst generate_loop.simps) simp
  next
    case True
    define k where "k = min bs (n - vg)"
    from True assms have k: "1 \<le> k" "k \<le> n - vg"
      by (simp_all add: k_def)
    show ?thesis
    proof (cases "generate_batch w self d td k t")
      case (Inl e)
      with True show ?thesis
        by (subst generate_loop.simps) (simp add: k_def)
    next
      case (Inr p)
      obtain vs t1 where p: "p = (vs, t1)" by (cases p)
      with Inr generate_batch_Inr_length have "length vs = nat k" by blast
      with k have "nat (n - (vg + int (length vs))) < nat (n - vg)"
        by simp
      from less.hyps [OF this, of "rows @ vs" t1] obtain r where
        "generate_loop w self d n td bs (vg + int (length vs)) (rows @ vs) t1 = Some r"
        by blast
      with True Inr p show ?thesis
        by (subst generate_loop.simps) (simp add: k_def)
    qed
  qed
qed

text \<open>
  Claim C5. For a column that has its word generator when its type is a string type, a batch
  size of at least 1, a target count of at least 1 and a cache file that can be connected
  to, \<open>generate_day_data\<close> returns without an exception, and the day cache then holds
  exactly \<open>num_values\<close> rows, which are the values of the day in generation order: the
  batches one after the other, each in its own order. A read at position \<open>p\<close> finds a
  row exactly for \<open>1 \<le> p \<le> num_values\<close>, and it is the \<open>p\<close>-th generated value.
\<close>

theorem generate_day_data_fills_cache:
  assumes "data_type (config self) = STRING_LONG \<or> data_type (config self) = STRING_CATEGORY \<longrightarrow> word_gen self"
    and "1 \<le> batch_size"
    and "1 \<le> num_values"
    and "\<not> w_connect_fails w (get_cache_path self day_index)"
  shows "\<exists>st' rows. generate_day_data w self day_index num_values total_days batch_size st = Some (Inr (), st')
           \<and> caches st' (get_cache_path self day_index) = Some rows
           \<and> rows = generation_order w self day_index total_days (batch_sizes batch_size num_values) (tick st)
           \<and> int (length rows) = num_values
           \<and> (\<forall>p. cache_read rows p \<noteq> None \<longleftrightarrow> 1 \<le> p \<and> p \<le> num_values)
           \<and> (\<forall>p. cache_read rows p =
                 (if 1 \<le> p \<and> p \<le> num_values
                  then Some (generation_order w self day_index total_days
                               (batch_sizes batch_size num_values) (tick st) ! nat (p - 1))
                  else None))"
proof -
  let ?order = "generation_order w self day_index total_days (batch_sizes batch_size num_values) (tick st)"
  from assms(3) have "0 \<le> num_values" by simp
  from generate_loop_returns [OF assms(1) assms(2) this, of w day_index total_days "[]" "tick st"]
  obtain t' where
    loop: "generate_loop w self day_index num_values total_days batch_size 0 [] (tick st)
             = Some (Inr ?order, t')"
    and len: "int (length ?order) = num_values"
    by auto
  from loop assms(4) have
    "generate_day_data w self day_index num_values total_days batch_size st =
       Some (Inr (), st\<lparr>tick := t', caches := (caches st)(get_cache_path self day_index \<mapsto> ?order)\<rparr>)"
    by (simp add: generate_day_data_def Let_def)
  with len show ?thesis
    by (auto simp: cache_read_def)
qed

text \<open>
  Five values in batches of two for a FLOAT column with uniform draws, in a world whose
  draws are all different: the cache holds them in the order in which they were drawn.
\<close>

theorem generate_day_data_fills_cache_witness:
  "data_type (config (example_column ''uniform1'' FLOAT 0 0 2)) = FLOAT
   \<and> (1::int) \<le> 2 \<and> (1::int) \<le> 5
   \<and> \<not> w_connect_fails counting_world (get_cache_path (example_column ''uniform1'' FLOAT 0 0 2) 0)
   \<and> generation_order counting_world (example_column ''uniform1'' FLOAT 0 0 2) 0 1 (batch_sizes 2 5) 0
        = [PFloat 0, PFloat (1 / 8), PFloat (1 / 4), PFloat (3 / 8), PFloat (1 / 2)]
   \<and> generated_values counting_world (example_column ''uniform1'' FLOAT 0 0 2) 0 5 1 2 example_state
        = Some [PFloat 0, PFloat (1 / 8), PFloat (1 / 4), PFloat (3 / 8), PFloat (1 / 2)]"
proof -
  let ?c = "example_column ''uniform1'' FLOAT 0 0 2"
  have ty: "data_type (config ?c) = FLOAT"
    by (simp add: example_column_def ColumnSpace_init_def)
  then have h1: "data_type (config ?c) = STRING_LONG \<or> data_type (config ?c) = STRING_CATEGORY \<longrightarrow> word_gen ?c"
    by simp
  have h2: "(1::int) \<le> 2" by simp
  have h3: "(1::int) \<le> 5" by simp
  have h4: "\<not> w_connect_fails counting_world (get_cache_path ?c 0)"
    by (simp add: counting_world_def example_world_def)
  have t0: "tick example_state = 0"
    by (simp add: example_state_def)
  have order: "generation_order counting_world ?c 0 1 (batch_sizes 2 5) 0
      = [PFloat 0, PFloat (1 / 8), PFloat (1 / 4), PFloat (3 / 8), PFloat (1 / 2)]"
    by code_simp
  from generate_day_data_fills_cache [OF h1 h2 h3 h4, of 1 example_state]
  obtain st' rows where r:
    "generate_day_data counting_world ?c 0 5 1 2 example_state = Some (Inr (), st')"
    "caches st' (get_cache_path ?c 0) = Some rows"
    "rows = generation_order counting_world ?c 0 1 (batch_sizes 2 5) (tick example_state)"
    by blast
  with t0 order have "generated_values counting_world ?c 0 5 1 2 example_state
        = Some [PFloat 0, PFloat (1 / 8), PFloat (1 / 4), PFloat (3 / 8), PFloat (1 / 2)]"
    by (simp add: generated_values_def)
  with ty h2 h3 h4 order show ?thesis by blast
qed

section \<open>INCREMENT columns\<close>

lemma convert_types_np_arange_INTEGER:
  assumes "data_type (config self) = INTEGER"
  shows "convert_types self (np_arange n)
           = map (\<lambda>i. if i = 0 then PFloat 0 else PInt (100 * int i)) [0..<nat n]"
proof -
  have "py_int (of_nat i * 100) = 100 * int i" for i
  proof -
    have "(of_nat i * 100 :: rat) = of_int (100 * int i)" by simp
    then show ?thesis
      unfolding py_int_def by (simp only: floor_of_int) simp
  qed
  with assms show ?thesis
    by (simp add: convert_types_def np_arange_def)
qed

lemma generate_loop_single_batch:
  assumes "generate_batch w self d td n t = Inr (vs, t')"
    and "int (length vs) = n" and "1 \<le> n" and "n \<le> bs"
  shows "generate_loop w self d n td bs 0 [] t = Some (Inr vs, t')"
proof -
  from assms(3,4) have m: "min bs (n - 0) = n" by simp
  have "generate_loop w self d n td bs n vs t' = Some (Inr vs, t')"
    by (subst generate_loop.simps) simp
  with assms(1-3) m show ?thesis
    by (subst generate_loop.simps) simp
qed

text \<open>
  Claim C4, as amended. For a column whose distribution flags include INCREMENT, on a day
  with no transition active and with a row count from 1 up to the batch size, the values
  of a FLOAT column are \<open>0, 1, ..., n - 1\<close>, and those of an INTEGER column are these
  values after type coercion: \<open>0.0\<close> and then \<open>100, 200, ..., 100 * (n - 1)\<close>.
\<close>

theorem increment_values_single_batch:
  assumes "has_distribution self (DistributionType_value INCREMENT)"
    and "\<forall>f. \<not> has_transition self d td (TransitionType_value f)"
    and "1 \<le> n" and "n \<le> bs"
    and "\<not> w_connect_fails w (get_cache_path self d)"
  shows "(data_type (config self) = FLOAT \<longrightarrow>
            generated_values w self d n td bs st = Some (map (\<lambda>i. PFloat (of_nat i)) [0..<nat n]))
       \<and> (data_type (config self) = INTEGER \<longrightarrow>
            generated_values w self d n td bs st
              = Some (map (\<lambda>i. if i = 0 then PFloat 0 else PInt (100 * int i)) [0..<nat n]))"
proof -
  have inactive: "\<And>vs t. apply_transitions w self vs d td t = (vs, t)"
    using assms(2) by (simp add: apply_transitions_inactive)
  have gv: "generated_values w self d n td bs st = Some vs"
    if b: "generate_batch w self d td n (tick st) = Inr (vs, tick st)" and l: "length vs = nat n" for vs
  proof -
    from l assms(3) have "int (length vs) = n" by simp
    from generate_loop_single_batch [OF b this assms(3) assms(4)] assms(5)
    show ?thesis
      by (simp add: generated_values_def generate_day_data_def Let_def)
  qed
  have float: "generated_values w self d n td bs st = Some (np_arange n)"
    if "data_type (config self) = FLOAT"
    using that assms(1) inactive
    by (intro gv) (simp_all add: generate_batch_def generate_numeric_distribution_def
        convert_types_def np_arange_def)
  have integer: "generated_values w self d n td bs st = Some (convert_types self (np_arange n))"
    if "data_type (config self) = INTEGER"
    using that assms(1) inactive
    by (intro gv) (simp_all add: generate_batch_def generate_numeric_distribution_def
        convert_types_length, simp add: np_arange_def)
  from float integer show ?thesis
    by (auto simp: convert_types_np_arange_INTEGER) (simp add: np_arange_def)
qed

text \<open>Three rows of a FLOAT column with INCREMENT.\<close>

theorem increment_values_single_batch_witness:
  "has_distribution (example_column ''id'' FLOAT 0 0 1) (DistributionType_value INCREMENT)
   \<and> (1::int) \<le> 3 \<and> (3::int) \<le> 10000
   \<and> \<not> w_connect_fails (example_world (1 / 2)) (get_cache_path (example_column ''id'' FLOAT 0 0 1) 0)
   \<and> data_type (config (example_column ''id'' FLOAT 0 0 1)) = FLOAT
   \<and> generated_values (example_world (1 / 2)) (example_column ''id'' FLOAT 0 0 1) 0 3 1 10000 example_state
        = Some [PFloat 0, PFloat 1, PFloat 2]"
proof -
  let ?c = "example_column ''id'' FLOAT 0 0 1"
  have h1: "has_distribution ?c (DistributionType_value INCREMENT)"
    by (simp add: has_distribution_def example_column_def ColumnSpace_init_def)
  have h2: "\<forall>f. \<not> has_transition ?c 0 1 (TransitionType_value f)"
    by (simp add: has_transition_def example_column_def ColumnSpace_init_def)
  have h3: "(1::int) \<le> 3" by simp
  have h4: "(3::int) \<le> 10000" by simp
  have h5: "\<not> w_connect_fails (example_world (1 / 2)) (get_cache_path ?c 0)"
    by (simp add: example_world_def)
  have ty: "data_type (config ?c) = FLOAT"
    by (simp add: example_column_def ColumnSpace_init_def)
  have "[0..<nat 3] = [0, 1, 2]"
    by (simp add: upt_rec)
  with increment_values_single_batch [OF h1 h2 h3 h4 h5, of example_state] ty
  have "generated_values (example_world (1 / 2)) ?c 0 3 1 10000 example_state
          = Some [PFloat 0, PFloat 1, PFloat 2]"
    by simp
  with h1 h3 h4 h5 ty show ?thesis by blast
qed

text \<open>
  The claim as stated fails for the INTEGER column \<open>id\<close> of the default configuration:
  three rows are \<open>0.0, 100, 200\<close>, not \<open>0, 1, 2\<close>.
\<close>

theorem increment_integer_column_counterexample:
  "generated_values (example_world (1 / 2)) (example_column ''id'' INTEGER 0 0 1) 0 3 1 10000 example_state
     = Some [PFloat 0, PInt 100, PInt 200]
   \<and> generated_values (example_world (1 / 2)) (example_column ''id'' INTEGER 0 0 1) 0 3 1 10000 example_state
     \<noteq> Some [PFloat 0, PFloat 1, PFloat 2]"
  by code_simp

text \<open>With more rows than the batch size, the sequence starts again at 0 in every batch.\<close>

lemma increment_restarts_in_each_batch:
  "generated_values (example_world (1 / 2)) (example_column ''id'' FLOAT 0 0 1) 0 3 1 2 example_state
     = Some [PFloat 0, PFloat 1, PFloat 0]"
  by code_simp

section \<open>The order of the transforms\<close>

text \<open>
  Claim C3. The code converts the types of a numeric batch before it applies the
  transitions. For an INTEGER column with uniform draws of 0.125 and value scaling active,
  the cached value is \<open>int(0.125 * 100) * 40 = 480\<close>; in the order of the claim (scaling,
  then type coercion) it is \<open>int(0.125 * 40 * 100) = 500\<close>.
\<close>

theorem type_coercion_precedes_scaling:
  "generated_values (example_world (1 / 8)) (example_column ''normal3'' INTEGER 0 2 2) 0 1 1 10000 example_state
     = Some [PInt 480]
   \<and> fst (spec_post_sampling (example_world (1 / 8)) (example_column ''normal3'' INTEGER 0 2 2)
            [PFloat (1 / 8)] 0 1 1) = [PInt 500]"
  by code_simp

lemma csv_row_always_kept:
  "field_names \<noteq> [] \<Longrightarrow> row_kept (CSVWriter_get_data_row w field_names i handles (PStr []))"
  by (cases field_names)
    (auto simp: row_kept_def CSVWriter_get_data_row_def get_data_row_with_def split: option.splits)

lemma json_row_kept_two_fields:
  "2 \<le> length field_names \<Longrightarrow> row_kept (JSONWriter_get_data_row field_names i handles PNone)"
proof -
  assume "2 \<le> length field_names"
  then have "2 \<le> length (JSONWriter_get_data_row field_names i handles PNone)"
    by (simp add: JSONWriter_get_data_row_def get_data_row_with_def)
  then show ?thesis
    by (auto simp: row_kept_def)
qed

section \<open>Output rows\<close>

text \<open>
  Claim C2. A row is dropped only when it is empty or exactly \<open>[None]\<close>. A JSON run with
  two columns whose fields both resolve to the null marker emits every row; so does the
  JSON-lines writer for two empty caches, and the CSV writer (whose null marker is the
  empty string) for one.
\<close>

theorem all_null_rows_are_emitted:
  "output_after (example_world (1 / 2))
     (DataGenerator_init (example_config 1 2 ''json''
        [config (example_column ''x'' FLOAT 0 16 1), config (example_column ''y'' FLOAT 0 16 1)]))
     example_state ''data/0.json''
     = Some (JSONFile [[(''new-x'', PNone), (''new-y'', PNone)], [(''new-x'', PNone), (''new-y'', PNone)]])
   \<and> snd (JSONLinesWriter_write_day (example_world (1 / 2)) 0 [''a'', ''b''] [''a'' \<mapsto> [], ''b'' \<mapsto> []] 1
            ''0.jsonl'' Map.empty) ''0.jsonl''
     = Some (JSONLinesFile [[(''a'', PNone), (''b'', PNone)]])
   \<and> snd (CSVWriter_write_day (example_world (1 / 2)) 0 [''a''] [''a'' \<mapsto> []] 1 ''0.csv'' Map.empty) ''0.csv''
     = Some (CSVFile [''a''] [[PStr []]])"
  by code_simp

text \<open>
  The handles of a day are keyed by the configured names of the columns, so a field name
  that is no column's configured name reads the null marker in every row.
\<close>

lemma open_cache_connections_dom:
  "open_cache_connections cs d files conns = Inr h
     \<Longrightarrow> dom h = dom conns \<union> (\<lambda>c. name (config c)) ` set cs"
proof (induction cs arbitrary: conns)
  case Nil
  then show ?case by simp
next
  case (Cons c cs)
  from Cons.prems obtain rows where
    "files (get_cache_path c d) = Some rows"
    "open_cache_connections cs d files (conns(name (config c) \<mapsto> rows)) = Inr h"
    by (auto simp: Let_def split: option.splits)
  from Cons.IH [OF this(2)] show ?case by auto
qed

lemma renamed_field_reads_null:
  assumes "open_cache_connections cs d files Map.empty = Inr h"
    and "\<And>c. c \<in> set cs \<Longrightarrow> name (config c) \<noteq> field_name"
  shows "get_data_row_with found [field_name] i h none_value = [none_value]"
proof -
  from open_cache_connections_dom [OF assms(1)] assms(2) have "field_name \<notin> dom h"
    by auto
  then have "h field_name = None" by blast
  then show ?thesis
    by (simp add: get_data_row_with_def)
qed

text \<open>
  Claim C1. The cache handles are keyed by the configured column names, and the writers
  look them up by the effective field names. With the schema-name transition active, the
  column \<open>x\<close> is written under \<open>new-x\<close> with the null marker in every row; without the
  transition the same column is written with its generated values \<open>0.0\<close> and \<open>1.0\<close>.
\<close>

theorem renamed_column_values_are_lost:
  "output_after (example_world (1 / 2))
     (DataGenerator_init (example_config 1 2 ''csv'' [config (example_column ''x'' FLOAT 0 16 1)]))
     example_state ''data/0.csv''
     = Some (CSVFile [''new-x''] [[PStr []], [PStr []]])
   \<and> output_after (example_world (1 / 2))
     (DataGenerator_init (example_config 1 2 ''csv'' [config (example_column ''x'' FLOAT 0 0 1)]))
     example_state ''data/0.csv''
     = Some (CSVFile [''x''] [[PStr ''0.0''], [PStr ''1.0'']])"
  by code_simp

text \<open>
  Claim C9. For a format name other than \<open>csv\<close>, \<open>json\<close> and \<open>jsonl\<close>,
  \<open>create_writer\<close> raises \<open>OutputError\<close>, and the output phase of a generator with that
  format raises it before any day is written: the state, with its output files, is
  unchanged.
\<close>

theorem unsupported_format_raises_OutputError:
  assumes "format_name \<notin> {''csv'', ''json'', ''jsonl''}"
  shows "create_writer format_name = Inl (OutputError (''Unsupported output format: '' @ format_name))
       \<and> (output_format (gen_config g) = format_name \<longrightarrow>
            write_output_data w g st
              = Some (Inl (OutputError (''Unsupported output format: '' @ format_name)), st))"
proof -
  from assms have "create_writer format_name
      = Inl (OutputError (''Unsupported output format: '' @ format_name))"
    by (simp add: create_writer_def)
  then show ?thesis
    by (simp add: write_output_data_def)
qed

text \<open>The format \<open>xml\<close>.\<close>

theorem unsupported_format_raises_OutputError_witness:
  "''xml'' \<notin> {''csv'', ''json'', ''jsonl''}
   \<and> output_format (gen_config (DataGenerator_init (example_config 1 2 ''xml'' []))) = ''xml''
   \<and> create_writer ''xml'' = Inl (OutputError ''Unsupported output format: xml'')
   \<and> write_output_data (example_world (1 / 2)) (DataGenerator_init (example_config 1 2 ''xml'' [])) example_state
        = Some (Inl (OutputError ''Unsupported output format: xml''), example_state)"
proof -
  have h1: "''xml'' \<notin> {''csv'', ''json'', ''jsonl''}" by simp
  have h2: "output_format (gen_config (DataGenerator_init (example_config 1 2 ''xml'' []))) = ''xml''"
    by (simp add: DataGenerator_init_def example_config_def)
  from unsupported_format_raises_OutputError [OF h1,
      of "DataGenerator_init (example_config 1 2 ''xml'' [])" "example_world (1 / 2)" example_state] h1 h2
  show ?thesis by simp
qed

text \<open>The constructor of \<open>GeneratorConfig\<close> rejects such a format with \<open>ValueError\<close>.\<close>

lemma GeneratorConfig_rejects_unsupported_format:
  assumes "0 < num_days c" and "0 < approx_rows_per_day c"
    and "output_format c \<notin> {''csv'', ''json'', ''jsonl''}"
  shows "GeneratorConfig_post_init c = Inl (ValueError ''output_format must be one of: csv, json, jsonl'')"
  using assms by (simp add: GeneratorConfig_post_init_def)

section \<open>The row count plan\<close>

lemma dict_set_fresh:
  "k \<notin> fst ` set ps \<Longrightarrow> dict_set k v ps = ps @ [(k, v)]"
  by (induction ps) auto

lemma rows_fold:
  "fold (\<lambda>day (rows_map, t). (dict_set day (e t) rows_map, t + 2)) (map int [0..<k]) ([], t)
     = (map (\<lambda>i. (int i, e (t + 2 * i))) [0..<k], t + 2 * k)"
proof (induction k)
  case 0
  then show ?case by simp
next
  case (Suc k)
  have "int k \<notin> fst ` set (map (\<lambda>i. (int i, e (t + 2 * i))) [0..<k])"
    by auto
  from dict_set_fresh [OF this] Suc show ?case
    by simp
qed

lemma map_of_rows:
  "0 \<le> d \<Longrightarrow> d < int k \<Longrightarrow> map_of (map (\<lambda>i. (int i, g i)) [0..<k]) d = Some (g (nat d))"
proof (induction k)
  case 0
  then show ?case by simp
next
  case (Suc k)
  show ?case
  proof (cases "d = int k")
    case True
    have "map_of (map (\<lambda>i. (int i, g i)) [0..<k]) (int k) = None"
      by (auto simp: map_of_eq_None_iff)
    with True show ?thesis
      by (simp add: map_add_def)
  next
    case False
    with Suc.prems have "d < int k" by simp
    with Suc have "map_of (map (\<lambda>i. (int i, g i)) [0..<k]) d = Some (g (nat d))" by simp
    then show ?thesis
      by (simp add: map_add_def)
  qed
qed

text \<open>
  Claim C7, as amended. For every day \<open>d\<close> in \<open>[0, num_days)\<close> the row count plan holds
  the entry computed from the two draws of that day, in float arithmetic: the variation
  factor is \<open>1 + (U - 0.5) * 2 * variation\<close>, the product of the base row count and the
  factor is truncated toward zero (not rounded), the product with the reduction factor is
  truncated again when the second draw exceeds the reduction probability, and the result
  is clamped to at least 1; so every entry is a positive integer.
\<close>

theorem rows_per_day_map_truncates:
  assumes "0 \<le> d" and "d < num_days c"
  shows "map_of (fst (generate_rows_per_day_map w c t)) d = Some (rows_map_entry w c (t + 2 * nat d))
       \<and> rows_map_entry w c (t + 2 * nat d)
           = max 1 (let f = fl_add 1 (fl_mul (fl_mul (fl_sub (w_uniform w (t + 2 * nat d)) (1 / 2)) 2)
                              (row_variation_percentage c));
                        rows = py_int (fl_mul (py_float (approx_rows_per_day c)) f)
                    in if w_uniform w (t + 2 * nat d + 1) > random_day_reduction_probability c
                       then py_int (fl_mul (py_float rows) (random_day_reduction_factor c)) else rows)
       \<and> 1 \<le> rows_map_entry w c (t + 2 * nat d)"
proof -
  from assms have "d < int (nat (num_days c))" by simp
  have "fst (generate_rows_per_day_map w c t)
          = map (\<lambda>i. (int i, rows_map_entry w c (t + 2 * i))) [0..<nat (num_days c)]"
    unfolding generate_rows_per_day_map_def py_range_def rows_fold by simp
  with map_of_rows [OF assms(1) \<open>d < int (nat (num_days c))\<close>, of "\<lambda>i. rows_map_entry w c (t + 2 * i)"]
  have "map_of (fst (generate_rows_per_day_map w c t)) d = Some (rows_map_entry w c (t + 2 * nat d))"
    by simp
  then show ?thesis
    by (simp add: rows_map_entry_def Let_def)
qed

text \<open>
  The default plan (500 rows, variation 0.2, reduction probability 0.8) with draws of
  0.25, on day 3 of 10: the factor is 0.9 and the day has \<open>int(500 * 0.9) = 450\<close> rows.
\<close>

theorem rows_per_day_map_truncates_witness:
  "(0::int) \<le> 3
   \<and> 3 < num_days ((example_config 10 500 ''csv'' [])\<lparr>row_variation_percentage := fl_round (1 / 5)\<rparr>)
   \<and> map_of (fst (generate_rows_per_day_map (example_world (1 / 4))
          ((example_config 10 500 ''csv'' [])\<lparr>row_variation_percentage := fl_round (1 / 5)\<rparr>) 0)) 3
       = Some 450"
proof -
  let ?c = "(example_config 10 500 ''csv'' [])\<lparr>row_variation_percentage := fl_round (1 / 5)\<rparr>"
  have h1: "(0::int) \<le> 3" by simp
  have h2: "3 < num_days ?c" by (simp add: example_config_def)
  have v: "rows_map_entry (example_world (1 / 4)) ?c 6 = 450"
    by code_simp
  from rows_per_day_map_truncates [OF h1 h2, of "example_world (1 / 4)" 0] h1 h2 v
  show ?thesis by simp
qed

text \<open>
  An anomalous day of a plan of 100 rows with draws of 0.85: the factor is 1.14, the
  product truncates to 113 rows, and the reduction leaves \<open>int(113 * 0.1) = 11\<close>.
\<close>

lemma rows_map_entry_anomalous_day:
  "py_int (fl_mul (py_float 100)
       (fl_add 1 (fl_mul (fl_mul (fl_sub (fl_round (17 / 20)) (1 / 2)) 2) (fl_round (1 / 5))))) = 113
   \<and> rows_map_entry (example_world (fl_round (17 / 20)))
        ((example_config 10 100 ''csv'' [])\<lparr>row_variation_percentage := fl_round (1 / 5)\<rparr>) 0 = 11"
  by code_simp

text \<open>
  The claim as stated fails for seven base rows, variation one half and draws of 0.75:
  the code plans \<open>int(8.75) = 8\<close> rows where rounding gives 9.
\<close>

theorem rows_rounding_counterexample:
  "map_of (fst (generate_rows_per_day_map (example_world (3 / 4))
          ((example_config 1 7 ''csv'' [])\<lparr>row_variation_percentage := 1 / 2\<rparr>) 0)) 0 = Some 8
   \<and> spec_rows (example_world (3 / 4))
          ((example_config 1 7 ''csv'' [])\<lparr>row_variation_percentage := 1 / 2\<rparr>) 0 = 9"
  by code_simp

section \<open>Failure of column generation\<close>

lemma for_each_total:
  assumes "\<And>x s. x \<in> set xs \<Longrightarrow> \<exists>r. body x s = Some r"
  shows "\<exists>r. for_each body xs s = Some r"
  using assms
proof (induction xs arbitrary: s)
  case Nil
  then show ?case by simp
next
  case (Cons x xs)
  from Cons.prems [of x s] obtain r s1 where b: "body x s = Some (r, s1)" by auto
  show ?case
  proof (cases r)
    case (Inl e)
    with b show ?thesis by simp
  next
    case (Inr u)
    from Cons.IH [of s1] Cons.prems obtain r' where "for_each body xs s1 = Some r'"
      by auto
    with b Inr show ?thesis by simp
  qed
qed

lemma for_each_fails:
  assumes "\<And>x s. x \<in> set xs \<Longrightarrow> \<exists>r. body x s = Some r"
    and "x \<in> set xs"
    and "\<And>s. \<exists>e s'. body x s = Some (Inl e, s')"
  shows "\<exists>e s'. for_each body xs s = Some (Inl e, s')"
  using assms(1,2)
proof (induction xs arbitrary: s)
  case Nil
  then show ?case by simp
next
  case (Cons y ys)
  from Cons.prems(1) [of y s] obtain r s1 where b: "body y s = Some (r, s1)" by auto
  show ?case
  proof (cases r)
    case (Inl e)
    with b show ?thesis by simp
  next
    case (Inr u)
    with b assms(3) [of s] have "y \<noteq> x" by auto
    with Cons.prems(2) have "x \<in> set ys" by simp
    from Cons.IH [OF _ this, of s1] Cons.prems(1) obtain e s' where
      "for_each body ys s1 = Some (Inl e, s')"
      by auto
    with b Inr show ?thesis by simp
  qed
qed

lemma for_each_invariant:
  assumes "\<And>x s r s'. x \<in> set xs \<Longrightarrow> body x s = Some (r, s') \<Longrightarrow> f s' = f s"
    and "for_each body xs s = Some (r, s')"
  shows "f s' = f s"
  using assms
proof (induction xs arbitrary: s)
  case Nil
  then show ?case by simp
next
  case (Cons x xs)
  from Cons.prems(2) obtain r1 s1 where b: "body x s = Some (r1, s1)"
    by (auto split: option.splits)
  with Cons.prems(1) [of x s r1 s1] have f1: "f s1 = f s" by simp
  show ?case
  proof (cases r1)
    case (Inl e)
    with b Cons.prems(2) f1 show ?thesis by simp
  next
    case (Inr u)
    with b Cons.prems(2) have "for_each body xs s1 = Some (r, s')" by simp
    from Cons.IH [OF _ this] Cons.prems(1) have "f s' = f s1" by auto
    with f1 show ?thesis by simp
  qed
qed

lemma generate_day_data_total:
  assumes "1 \<le> bs"
  shows "\<exists>r. generate_day_data w self d n td bs st = Some r"
proof -
  from generate_loop_total [OF assms, of w self d n td 0 "[]" "tick st"] obtain r t' where
    "generate_loop w self d n td bs 0 [] (tick st) = Some (r, t')"
    by auto
  then show ?thesis
    by (cases r) (simp_all add: generate_day_data_def Let_def)
qed

lemma generate_day_data_keeps:
  assumes "generate_day_data w self d n td bs st = Some (r, st')"
  shows "outputs st' = outputs st \<and> metrics st' = metrics st \<and> rows_per_day_map st' = rows_per_day_map st"
  using assms
  by (auto simp: generate_day_data_def Let_def split: if_splits option.splits sum.splits prod.splits)

lemma generate_day_data_connect_fails:
  assumes "w_connect_fails w (get_cache_path self d)"
  shows "\<exists>e st'. generate_day_data w self d n td bs st = Some (Inl e, st')"
  using assms by (simp add: generate_day_data_def Let_def)

lemma generate_one_day_total:
  assumes "1 \<le> cache_batch_size (gen_config g)"
  shows "\<exists>r. generate_one_day w g cs d st = Some r"
proof (cases "lookup_rows st d")
  case (Inl e)
  then show ?thesis by (simp add: generate_one_day_def)
next
  case (Inr n)
  from generate_day_data_total [OF assms, of w cs d n "num_days (gen_config g)" st]
  obtain r st' where "generate_day_data w cs d n (num_days (gen_config g))
      (cache_batch_size (gen_config g)) st = Some (r, st')"
    by auto
  with Inr show ?thesis
    by (cases r) (simp_all add: generate_one_day_def)
qed

lemma generate_one_day_keeps:
  assumes "generate_one_day w g cs d st = Some (r, st')"
  shows "outputs st' = outputs st \<and> files_written (metrics st') = files_written (metrics st)
       \<and> rows_per_day_map st' = rows_per_day_map st"
proof (cases "lookup_rows st d")
  case (Inl e)
  with assms show ?thesis by (simp add: generate_one_day_def)
next
  case (Inr n)
  with assms obtain r1 st1 where
    g: "generate_day_data w cs d n (num_days (gen_config g)) (cache_batch_size (gen_config g)) st
          = Some (r1, st1)"
    by (auto simp: generate_one_day_def split: option.splits)
  from generate_day_data_keeps [OF g] assms Inr g show ?thesis
    by (cases r1) (auto simp: generate_one_day_def add_cache_operations_def)
qed

lemma generate_one_day_connect_fails:
  assumes "w_connect_fails w (get_cache_path cs d)"
  shows "\<exists>e st'. generate_one_day w g cs d st = Some (Inl e, st')"
proof (cases "lookup_rows st d")
  case (Inl e)
  then show ?thesis by (simp add: generate_one_day_def)
next
  case (Inr n)
  from generate_day_data_connect_fails [OF assms, of n "num_days (gen_config g)"
      "cache_batch_size (gen_config g)" st]
  obtain e st' where "generate_day_data w cs d n (num_days (gen_config g))
      (cache_batch_size (gen_config g)) st = Some (Inl e, st')"
    by blast
  with Inr show ?thesis by (simp add: generate_one_day_def)
qed

lemma in_py_range: "d \<in> set (py_range n) \<longleftrightarrow> 0 \<le> d \<and> d < n"
  by (auto simp: py_range_def image_iff intro: bexI [of _ "nat d"])

lemma get_cache_path_ColumnSpace_init [simp]:
  "get_cache_path (ColumnSpace_init (config col)) d = get_cache_path col d"
  by (simp add: get_cache_path_def ColumnSpace_init_def)

lemma worker_day_total:
  assumes "1 \<le> bs"
  shows "\<exists>r. (case map_of rows_map d of
            None \<Rightarrow> Some (Inl (KeyError (str_int d)), st)
          | Some n \<Rightarrow> generate_day_data w cs d n td bs st) = Some r"
  using generate_day_data_total [OF assms] by (cases "map_of rows_map d") auto

lemma generate_column_worker_total:
  assumes "1 \<le> bs"
  shows "\<exists>r. generate_column_worker w c rows_map td bs st = Some r"
  unfolding generate_column_worker_def
  by (rule for_each_total) (rule worker_day_total [OF assms])

lemma generate_column_worker_keeps:
  assumes "generate_column_worker w c rows_map td bs st = Some (r, st')"
  shows "outputs st' = outputs st \<and> metrics st' = metrics st \<and> rows_per_day_map st' = rows_per_day_map st"
proof -
  let ?f = "\<lambda>s. (outputs s, metrics s, rows_per_day_map s)"
  have "?f st' = ?f st"
  proof (rule for_each_invariant [where f = ?f, OF _ assms [unfolded generate_column_worker_def]])
    fix d s r1 s1
    assume "(case map_of rows_map d of
               None \<Rightarrow> Some (Inl (KeyError (str_int d)), s)
             | Some n \<Rightarrow> generate_day_data w (ColumnSpace_init c) d n td bs s) = Some (r1, s1)"
    then show "?f s1 = ?f s"
      by (cases "map_of rows_map d") (auto dest: generate_day_data_keeps)
  qed
  then show ?thesis by simp
qed

lemma generate_column_worker_connect_fails:
  assumes "1 \<le> bs" and "0 \<le> d" and "d < td"
    and "w_connect_fails w (get_cache_path (ColumnSpace_init c) d)"
  shows "\<exists>e st'. generate_column_worker w c rows_map td bs st = Some (Inl e, st')"
  unfolding generate_column_worker_def
proof (rule for_each_fails [where x = d])
  show "d \<in> set (py_range td)"
    using assms(2,3) by (simp add: in_py_range)
next
  fix x s
  show "\<exists>r. (case map_of rows_map x of
            None \<Rightarrow> Some (Inl (KeyError (str_int x)), s)
          | Some n \<Rightarrow> generate_day_data w (ColumnSpace_init c) x n td bs s) = Some r"
    by (rule worker_day_total [OF assms(1)])
next
  fix s
  show "\<exists>e s'. (case map_of rows_map d of
            None \<Rightarrow> Some (Inl (KeyError (str_int d)), s)
          | Some n \<Rightarrow> generate_day_data w (ColumnSpace_init c) d n td bs s) = Some (Inl e, s')"
    using generate_day_data_connect_fails [OF assms(4)]
    by (cases "map_of rows_map d") auto
qed

lemma column_days_total:
  assumes "1 \<le> cache_batch_size (gen_config g)"
  shows "\<exists>r. for_each (generate_one_day w g cs) days st = Some r"
  by (rule for_each_total) (rule generate_one_day_total [OF assms])

lemma column_days_connect_fails:
  assumes "1 \<le> cache_batch_size (gen_config g)"
    and "d \<in> set days"
    and "w_connect_fails w (get_cache_path cs d)"
  shows "\<exists>e st'. for_each (generate_one_day w g cs) days st = Some (Inl e, st')"
proof (rule for_each_fails [where x = d])
  show "d \<in> set days" by (rule assms(2))
next
  fix x s
  show "\<exists>r. generate_one_day w g cs x s = Some r"
    by (rule generate_one_day_total [OF assms(1)])
next
  fix s
  show "\<exists>e s'. generate_one_day w g cs d s = Some (Inl e, s')"
    by (rule generate_one_day_connect_fails [OF assms(3)])
qed

lemma column_days_keeps:
  assumes "for_each (generate_one_day w g cs) days st = Some (r, st')"
  shows "(outputs st', files_written (metrics st')) = (outputs st, files_written (metrics st))"
proof (rule for_each_invariant [where f = "\<lambda>s. (outputs s, files_written (metrics s))", OF _ assms])
  fix d s r1 s1
  assume "generate_one_day w g cs d s = Some (r1, s1)"
  from generate_one_day_keeps [OF this]
  show "(outputs s1, files_written (metrics s1)) = (outputs s, files_written (metrics s))"
    by simp
qed

text \<open>The body of the loop over the results of the worker tasks.\<close>

lemma worker_result_total:
  assumes "1 \<le> bs"
  shows "\<exists>r. (case generate_column_worker w c rows_map td bs st of
            None \<Rightarrow> None
          | Some (Inl e, st') \<Rightarrow> Some (Inl (DataGenerationError (msg e)), add_error st')
          | Some (Inr u, st') \<Rightarrow> Some (Inr (), add_cache_operations k st')) = Some r"
proof -
  from generate_column_worker_total [OF assms, of w c rows_map td st] obtain r st' where
    "generate_column_worker w c rows_map td bs st = Some (r, st')"
    by auto
  then show ?thesis by (cases r) simp_all
qed

lemma generate_column_data_total:
  assumes "1 \<le> cache_batch_size (gen_config g)"
  shows "\<exists>r. generate_column_data w g st = Some r"
proof (cases "max_workers (gen_config g) = Some 1")
  case True
  have "\<exists>r. for_each (\<lambda>column_space.
            for_each (generate_one_day w g column_space) (py_range (num_days (gen_config g))))
          (column_spaces g) st = Some r"
    by (rule for_each_total) (rule column_days_total [OF assms])
  with True show ?thesis by (simp add: generate_column_data_def)
next
  case False
  have "\<exists>r. for_each (\<lambda>col st.
                  case generate_column_worker w (config col) (rows_per_day_map st)
                         (num_days (gen_config g)) (cache_batch_size (gen_config g)) st of
                    None \<Rightarrow> None
                  | Some (Inl e, st') \<Rightarrow>
                      Some (Inl (DataGenerationError
                                   (''Failed to generate column '' @ name (config col) @ '': '' @ exn_msg e)),
                            add_error st')
                  | Some (Inr u, st') \<Rightarrow>
                      Some (Inr (), add_cache_operations (num_days (gen_config g)) st'))
                (column_spaces g) st = Some r"
    by (rule for_each_total) (rule worker_result_total [OF assms])
  with False show ?thesis
    by (simp add: generate_column_data_def Let_def)
qed

lemma generate_column_data_connect_fails:
  assumes "1 \<le> cache_batch_size (gen_config g)"
    and "col \<in> set (column_spaces g)"
    and "0 \<le> d" and "d < num_days (gen_config g)"
    and "w_connect_fails w (get_cache_path col d)"
  shows "\<exists>e st'. generate_column_data w g st = Some (Inl e, st')"
proof (cases "max_workers (gen_config g) = Some 1")
  case True
  have "\<exists>e st'. for_each (\<lambda>column_space.
            for_each (generate_one_day w g column_space) (py_range (num_days (gen_config g))))
          (column_spaces g) st = Some (Inl e, st')"
  proof (rule for_each_fails [where x = col])
    show "col \<in> set (column_spaces g)" by (rule assms(2))
  next
    fix x s
    show "\<exists>r. for_each (generate_one_day w g x) (py_range (num_days (gen_config g))) s = Some r"
      by (rule column_days_total [OF assms(1)])
  next
    fix s
    from assms(3,4) have "d \<in> set (py_range (num_days (gen_config g)))"
      by (simp add: in_py_range)
    from column_days_connect_fails [OF assms(1) this assms(5)]
    show "\<exists>e s'. for_each (generate_one_day w g col) (py_range (num_days (gen_config g))) s
        = Some (Inl e, s')"
      by blast
  qed
  with True show ?thesis by (simp add: generate_column_data_def)
next
  case False
  let ?body = "\<lambda>(col::ColumnSpace) (st::State).
                  case generate_column_worker w (config col) (rows_per_day_map st)
                         (num_days (gen_config g)) (cache_batch_size (gen_config g)) st of
                    None \<Rightarrow> None
                  | Some (Inl e, st') \<Rightarrow>
                      Some (Inl (DataGenerationError
                                   (''Failed to generate column '' @ name (config col) @ '': '' @ exn_msg e)),
                            add_error st')
                  | Some (Inr u, st') \<Rightarrow>
                      Some (Inr (), add_cache_operations (num_days (gen_config g)) st')"
  have "\<exists>e st'. for_each ?body (column_spaces g) st = Some (Inl e, st')"
  proof (rule for_each_fails [where x = col])
    show "col \<in> set (column_spaces g)" by (rule assms(2))
  next
    fix x s
    show "\<exists>r. ?body x s = Some r"
      by (rule worker_result_total [OF assms(1)])
  next
    fix s
    from assms(5) have "w_connect_fails w (get_cache_path (ColumnSpace_init (config col)) d)"
      by simp
    from generate_column_worker_connect_fails [OF assms(1,3,4) this, of "rows_per_day_map s" s]
    obtain e s' where "generate_column_worker w (config col) (rows_per_day_map s)
        (num_days (gen_config g)) (cache_batch_size (gen_config g)) s = Some (Inl e, s')"
      by blast
    then show "\<exists>e s'. ?body col s = Some (Inl e, s')"
      by simp
  qed
  with False show ?thesis
    by (auto simp: generate_column_data_def Let_def)
qed

lemma generate_column_data_keeps:
  assumes "generate_column_data w g st = Some (r, st')"
  shows "outputs st' = outputs st \<and> files_written (metrics st') = files_written (metrics st)"
proof (cases "max_workers (gen_config g) = Some 1")
  case True
  with assms have run: "for_each (\<lambda>column_space.
            for_each (generate_one_day w g column_space) (py_range (num_days (gen_config g))))
          (column_spaces g) st = Some (r, st')"
    by (simp add: generate_column_data_def)
  have "(outputs st', files_written (metrics st')) = (outputs st, files_written (metrics st))"
    by (rule for_each_invariant [where f = "\<lambda>s. (outputs s, files_written (metrics s))", OF _ run])
      (rule column_days_keeps)
  then show ?thesis by simp
next
  case False
  let ?body = "\<lambda>(col::ColumnSpace) (st::State).
                  case generate_column_worker w (config col) (rows_per_day_map st)
                         (num_days (gen_config g)) (cache_batch_size (gen_config g)) st of
                    None \<Rightarrow> None
                  | Some (Inl e, st') \<Rightarrow>
                      Some (Inl (DataGenerationError
                                   (''Failed to generate column '' @ name (config col) @ '': '' @ exn_msg e)),
                            add_error st')
                  | Some (Inr u, st') \<Rightarrow>
                      Some (Inr (), add_cache_operations (num_days (gen_config g)) st')"
  show ?thesis
  proof (cases "for_each ?body (column_spaces g) st = Some (r, st')")
    case run: True
    have "(outputs st', files_written (metrics st')) = (outputs st, files_written (metrics st))"
    proof (rule for_each_invariant [where f = "\<lambda>s. (outputs s, files_written (metrics s))", OF _ run])
      fix col s r1 s1
      assume b: "?body col s = Some (r1, s1)"
      then obtain r2 s2 where wk: "generate_column_worker w (config col) (rows_per_day_map s)
          (num_days (gen_config g)) (cache_batch_size (gen_config g)) s = Some (r2, s2)"
        by (auto split: option.splits)
      from generate_column_worker_keeps [OF wk] b wk
      show "(outputs s1, files_written (metrics s1)) = (outputs s, files_written (metrics s))"
        by (cases r2) (auto simp: add_error_def add_cache_operations_def)
    qed
    then show ?thesis by simp
  next
    case False
    with assms \<open>max_workers (gen_config g) \<noteq> Some 1\<close> have "st' = st"
      by (auto simp: generate_column_data_def Let_def split: if_splits)
    then show ?thesis by simp
  qed
qed

text \<open>
  Claim C8. When the column generation phase of a run raises, \<open>generate\<close> raises
  \<open>DataGenerationError\<close> carrying the message of the failure, and neither the output
  files nor the count of files written have changed: the output phase has not started.
  And the phase does raise when, with a batch size of at least 1, the cache file of any
  column for any day of the run cannot be connected to.
\<close>

theorem column_failure_fails_run:
  "(column_generation_phase w g st = Some (Inl e, st2) \<longrightarrow>
      generate w g st
        = Some (Inl (DataGenerationError (''Data generation failed: '' @ exn_msg e)), add_error st2)
      \<and> outputs (add_error st2) = outputs st
      \<and> files_written (metrics (add_error st2)) = files_written (metrics st))
   \<and> (1 \<le> cache_batch_size (gen_config g) \<and> col \<in> set (column_spaces g)
        \<and> 0 \<le> d \<and> d < num_days (gen_config g) \<and> w_connect_fails w (get_cache_path col d) \<longrightarrow>
      (\<exists>e st2. column_generation_phase w g st = Some (Inl e, st2)))"
proof (intro conjI impI)
  assume phase: "column_generation_phase w g st = Some (Inl e, st2)"
  obtain rows_map t' where plan: "generate_rows_per_day_map w (gen_config g) (tick st) = (rows_map, t')"
    by (cases "generate_rows_per_day_map w (gen_config g) (tick st)")
  with phase have run: "generate_column_data w g (st\<lparr>tick := t', rows_per_day_map := rows_map\<rparr>)
      = Some (Inl e, st2)"
    by (simp add: column_generation_phase_def)
  with plan show "generate w g st
      = Some (Inl (DataGenerationError (''Data generation failed: '' @ exn_msg e)), add_error st2)"
    by (simp add: generate_def generate_steps_def)
  from generate_column_data_keeps [OF run]
  show "outputs (add_error st2) = outputs st"
    and "files_written (metrics (add_error st2)) = files_written (metrics st)"
    by (simp_all add: add_error_def)
next
  assume a: "1 \<le> cache_batch_size (gen_config g) \<and> col \<in> set (column_spaces g)
        \<and> 0 \<le> d \<and> d < num_days (gen_config g) \<and> w_connect_fails w (get_cache_path col d)"
  obtain rows_map t' where plan: "generate_rows_per_day_map w (gen_config g) (tick st) = (rows_map, t')"
    by (cases "generate_rows_per_day_map w (gen_config g) (tick st)")
  from a generate_column_data_connect_fails [of g col d w "st\<lparr>tick := t', rows_per_day_map := rows_map\<rparr>"]
  obtain e st2 where "generate_column_data w g (st\<lparr>tick := t', rows_per_day_map := rows_map\<rparr>)
      = Some (Inl e, st2)"
    by blast
  with plan show "\<exists>e st2. column_generation_phase w g st = Some (Inl e, st2)"
    by (simp add: column_generation_phase_def)
qed

text \<open>A run with one column in a world where no cache file can be connected to.\<close>

theorem column_failure_fails_run_witness:
  "1 \<le> cache_batch_size (gen_config (DataGenerator_init
          (example_config 1 2 ''csv'' [config (example_column ''x'' FLOAT 0 0 1)])))
   \<and> example_column ''x'' FLOAT 0 0 1 \<in> set (column_spaces (DataGenerator_init
          (example_config 1 2 ''csv'' [config (example_column ''x'' FLOAT 0 0 1)])))
   \<and> (0::int) \<le> 0
   \<and> 0 < num_days (gen_config (DataGenerator_init
          (example_config 1 2 ''csv'' [config (example_column ''x'' FLOAT 0 0 1)])))
   \<and> w_connect_fails broken_world (get_cache_path (example_column ''x'' FLOAT 0 0 1) 0)
   \<and> generate_result broken_world
        (DataGenerator_init (example_config 1 2 ''csv'' [config (example_column ''x'' FLOAT 0 0 1)]))
        example_state
      = Some (Inl (DataGenerationError ''Data generation failed: Cache operation failed for x: unable to open database file''))
   \<and> output_after broken_world
        (DataGenerator_init (example_config 1 2 ''csv'' [config (example_column ''x'' FLOAT 0 0 1)]))
        example_state ''data/0.csv'' = None"
proof -
  let ?col = "example_column ''x'' FLOAT 0 0 1"
  let ?g = "DataGenerator_init (example_config 1 2 ''csv'' [config ?col])"
  have h1: "1 \<le> cache_batch_size (gen_config ?g)"
    by (simp add: DataGenerator_init_def example_config_def)
  have h2: "?col \<in> set (column_spaces ?g)"
    by (simp add: DataGenerator_init_def example_config_def example_column_def ColumnSpace_init_def)
  have h3: "(0::int) \<le> 0" by simp
  have h4: "0 < num_days (gen_config ?g)"
    by (simp add: DataGenerator_init_def example_config_def)
  have h5: "w_connect_fails broken_world (get_cache_path ?col 0)"
    by (simp add: broken_world_def)
  note T = column_failure_fails_run [of broken_world ?g example_state _ _ ?col 0]
  from T h1 h2 h3 h4 h5 obtain e st2 where
    phase: "column_generation_phase broken_world ?g example_state = Some (Inl e, st2)"
    by blast
  with column_failure_fails_run [of broken_world ?g example_state e st2 ?col 0]
  have run: "generate broken_world ?g example_state
        = Some (Inl (DataGenerationError (''Data generation failed: '' @ exn_msg e)), add_error st2)"
    and out: "outputs (add_error st2) = outputs example_state"
    by simp_all
  from run out have o: "output_after broken_world ?g example_state ''data/0.csv'' = None"
    by (simp add: output_after_def example_state_def)
  have r: "generate_result broken_world ?g example_state
      = Some (Inl (DataGenerationError ''Data generation failed: Cache operation failed for x: unable to open database file''))"
    by code_simp
  from h1 h2 h3 h4 h5 r o show ?thesis by blast
qed

end
